theory Spec2Isabelle
  imports Complex_Main
begin

unbundle bit_operations_syntax

section \<open>JavaScript values\<close>

text \<open>
  Strings are byte strings (the UTF-8 encoding of the JavaScript string). A string is
  falsy exactly when it is empty, so the guards \<^verbatim>\<open>!email\<close>, \<^verbatim>\<open>!otp\<close>, \<^verbatim>\<open>!uid\<close>
  of the handlers are emptiness tests; an absent request field is \<open>None\<close> where a
  handler tells it apart from a string, and the empty string otherwise.
  JSON values carry the numbers the handlers compute with (millisecond timestamps) as
  integers.
\<close>

datatype jsval =
    JNull
  | JBool bool
  | JNum int
  | JStr string
  | JArr "jsval list"
  | JObj "(string \<times> jsval) list"

text \<open>An HTTP answer: the status code and the JSON body, field by field.\<close>

datatype response = Response nat "(string \<times> jsval) list"

definition failure :: "nat \<Rightarrow> string \<Rightarrow> response" where
  "failure code msg = Response code [(''success'', JBool False), (''message'', JStr msg)]"

definition success_msg :: "string \<Rightarrow> response" where
  "success_msg msg = Response 200 [(''success'', JBool True), (''message'', JStr msg)]"

subsection \<open>Number.prototype.toString on integers\<close>

definition digit_char :: "nat \<Rightarrow> char" where
  "digit_char d = ''0123456789'' ! d"

fun string_of_nat :: "nat \<Rightarrow> string" where
  "string_of_nat n =
     (if n < 10 then [digit_char n] else string_of_nat (n div 10) @ [digit_char (n mod 10)])"

declare string_of_nat.simps [simp del]

definition Number_toString :: "int \<Rightarrow> string" where
  "Number_toString i = (if i < 0 then CHR ''-'' # string_of_nat (nat (- i)) else string_of_nat (nat i))"

subsection \<open>encodeURIComponent\<close>

text \<open>
  Every byte outside the unreserved set \<^verbatim>\<open>A-Z a-z 0-9 - _ . ! ~ * ' ( )\<close> is written as
  \<^verbatim>\<open>%XX\<close> with upper-case hexadecimal digits; nothing is lower-cased or trimmed.
\<close>

definition uri_unreserved :: "char \<Rightarrow> bool" where
  "uri_unreserved c =
     (c \<in> set ''ABCDEFGHIJKLMNOPQRSTUVWXYZabcdefghijklmnopqrstuvwxyz0123456789-_.!~*()''
      \<or> c = CHR 0x27)"

definition hex_digit :: "nat \<Rightarrow> char" where
  "hex_digit d = ''0123456789ABCDEF'' ! d"

definition percent_encode :: "char \<Rightarrow> string" where
  "percent_encode c =
     (if uri_unreserved c then [c]
      else [CHR ''%'', hex_digit (of_char c div 16), hex_digit (of_char c mod 16)])"

definition encodeURIComponent :: "string \<Rightarrow> string" where
  "encodeURIComponent s = concat (map percent_encode s)"

section \<open>The identity provider\<close>

text \<open>
  Modelled from the spec: the identity provider (firebase-admin's \<^verbatim>\<open>admin.auth()\<close>) is
  an external collaborator whose code is not part of the repository. Section 6 of the
  spec gives its contract: \<^verbatim>\<open>createIdentity\<close> yields an id or fails with ALREADY_EXISTS or
  OTHER, \<^verbatim>\<open>getIdentityByEmail\<close> yields an id or fails with NOT_FOUND, \<^verbatim>\<open>updateIdentity\<close>
  acts on an id and fails when no account has it. The accounts are kept in creation order; a
  new account gets an id that no account has. Whether the provider fails a creation with
  OTHER (an email or a password it refuses, the network) is its own decision: it is an
  input of \<open>createUser\<close>, \<open>Some message\<close> when it does.
\<close>

type_synonym uid = string

record auth_user =
  au_email :: string
  au_password :: string
  au_emailVerified :: bool
  au_disabled :: bool

type_synonym auth_db = "(uid \<times> auth_user) list"

datatype auth_error = email_already_exists | user_not_found | other_error string

definition fresh_uid :: "auth_db \<Rightarrow> uid" where
  "fresh_uid a = replicate (Suc (foldr max (map (\<lambda>p. length (fst p)) a) 0)) CHR ''u''"

definition getUserByEmail :: "auth_db \<Rightarrow> string \<Rightarrow> auth_error + uid" where
  "getUserByEmail a e =
     (case find (\<lambda>p. au_email (snd p) = e) a of
        None \<Rightarrow> Inl user_not_found
      | Some p \<Rightarrow> Inr (fst p))"

definition getUser :: "auth_db \<Rightarrow> uid \<Rightarrow> auth_error + auth_user" where
  "getUser a u = (case map_of a u of None \<Rightarrow> Inl user_not_found | Some r \<Rightarrow> Inr r)"

definition createUser :: "string option \<Rightarrow> auth_db \<Rightarrow> auth_user \<Rightarrow> auth_error + (uid \<times> auth_db)" where
  "createUser other a props =
     (case other of
        Some message \<Rightarrow> Inl (other_error message)
      | None \<Rightarrow>
          (case find (\<lambda>p. au_email (snd p) = au_email props) a of
             Some _ \<Rightarrow> Inl email_already_exists
           | None \<Rightarrow> Inr (fresh_uid a, a @ [(fresh_uid a, props)])))"

definition updateUser :: "auth_db \<Rightarrow> uid \<Rightarrow> (auth_user \<Rightarrow> auth_user) \<Rightarrow> auth_error + auth_db" where
  "updateUser a u f =
     (case map_of a u of
        None \<Rightarrow> Inl user_not_found
      | Some _ \<Rightarrow> Inr (map (\<lambda>p. if fst p = u then (fst p, f (snd p)) else p) a))"

section \<open>The document store\<close>

text \<open>
  Modelled from the spec: the document store (Firestore) is an external collaborator.
  A document is a finite map from field names to values; \<^verbatim>\<open>set\<close> with \<^verbatim>\<open>merge: true\<close>
  overrides the fields given and keeps the others, \<^verbatim>\<open>set\<close> without it replaces the
  document. The \<^verbatim>\<open>otps\<close> collection is written by \<^verbatim>\<open>/send-otp\<close> only, always with the
  same three fields, so its documents are records.
\<close>

datatype fsval =
    FStr string
  | FBool bool
  | FNum int
  | FTime int
  | FMap "(string \<times> fsval) list"

type_synonym doc = "string \<rightharpoonup> fsval"

record otp_doc =
  otp_code :: string
  otp_createdAt :: int
  otp_expiresAt :: int

record backend =
  auth :: auth_db
  users :: "uid \<rightharpoonup> doc"
  otps :: "string \<rightharpoonup> otp_doc"
  vaccineStock :: "(string \<times> doc) list"

section \<open>One-time passcodes\<close>

subsection \<open>/send-otp\<close>

text \<open>
  Numbers are IEEE 754 binary64 values, here the real numbers they denote. An arithmetic
  operation gives the exact result rounded to the nearest binary64 value, ties to the even
  significand: \<open>binade x\<close> is the exponent \<open>e\<close> with \<open>two_pow e \<le> x < two_pow (e + 1)\<close>,
  \<open>ulp x\<close> the distance of neighbouring values there (52 fraction bits; the subnormal values
  below \<open>two_pow (- 1022)\<close> are spaced by \<open>two_pow (- 1074)\<close>). Results beyond the largest
  finite value do not occur in the handlers.
\<close>

fun bit_length :: "nat \<Rightarrow> nat" where
  "bit_length n = (if n = 0 then 0 else 1 + bit_length (n div 2))"

declare bit_length.simps [simp del]

definition two_pow :: "int \<Rightarrow> real" where
  "two_pow k = (if 0 \<le> k then 2 ^ nat k else 1 / 2 ^ nat (- k))"

definition binade :: "real \<Rightarrow> int" where
  "binade x =
     (if 1 \<le> x then int (bit_length (nat \<lfloor>x\<rfloor>)) - 1
      else - int (bit_length (nat (\<lceil>1 / x\<rceil> - 1))))"

definition round_half_even :: "real \<Rightarrow> int" where
  "round_half_even q =
     (let f = \<lfloor>q\<rfloor>; d = q - of_int f
      in if d < 1 / 2 then f else if 1 / 2 < d then f + 1 else if even f then f else f + 1)"

definition ulp :: "real \<Rightarrow> real" where
  "ulp x = two_pow (max (binade x) (- 1022) - 52)"

definition binary64 :: "real \<Rightarrow> real" where
  "binary64 x =
     (if x = 0 then 0
      else if x < 0 then - (of_int (round_half_even (- x / ulp (- x))) * ulp (- x))
      else of_int (round_half_even (x / ulp x)) * ulp x)"

text \<open>
  \<^verbatim>\<open>Math.floor(100000 + Math.random() * 900000).toString()\<close>: the draw of
  \<^verbatim>\<open>Math.random()\<close> is an input \<open>r\<close>, a binary64 value (\<open>binary64 r = r\<close>) with
  \<open>0 \<le> r < 1\<close>; the product is rounded, then the sum.
\<close>

definition generate_otp_number :: "real \<Rightarrow> int" where
  "generate_otp_number r = \<lfloor>binary64 (100000 + binary64 (r * 900000))\<rfloor>"

definition generate_otp :: "real \<Rightarrow> string" where
  "generate_otp r = Number_toString (generate_otp_number r)"

text \<open>What the mail transport does with the message: the handler answers after storing.\<close>

datatype mail_outcome = NotConfigured | SendFails string | Sent

definition set_password_best_effort :: "auth_db \<Rightarrow> string \<Rightarrow> string \<Rightarrow> auth_db" where
  "set_password_best_effort a email code =
     (case getUserByEmail a email of
        Inl _ \<Rightarrow> a
      | Inr u \<Rightarrow>
          (case updateUser a u (\<lambda>r. r\<lparr>au_password := code\<rparr>) of
             Inl _ \<Rightarrow> a
           | Inr a' \<Rightarrow> a'))"

definition send_otp :: "string \<Rightarrow> real \<Rightarrow> int \<Rightarrow> mail_outcome \<Rightarrow> backend \<Rightarrow> response \<times> backend" where
  "send_otp email r now mail s =
     (if email = [] then (failure 400 ''Email is required'', s)
      else
        let code = generate_otp r;
            expiresAt = now + 5 * 60 * 1000;
            emailKey = encodeURIComponent email;
            s' = s\<lparr>auth := set_password_best_effort (auth s) email code,
                   otps := (otps s)(emailKey \<mapsto>
                     \<lparr>otp_code = code, otp_createdAt = now, otp_expiresAt = expiresAt\<rparr>)\<rparr>
        in case mail of
             NotConfigured \<Rightarrow> (failure 500 ''Email sending not configured on server'', s')
           | SendFails msg \<Rightarrow> (failure 500 (if msg = [] then ''Failed to send OTP'' else msg), s')
           | Sent \<Rightarrow> (success_msg ''OTP sent to email'', s'))"

subsection \<open>/verify-otp\<close>

text \<open>The four answers of the spec's \<^verbatim>\<open>verify\<close>, as the handler words them.\<close>

definition NOT_FOUND :: response where
  "NOT_FOUND = failure 400 ''No OTP found for this email''"

definition EXPIRED :: response where
  "EXPIRED = failure 400 ''OTP expired''"

definition MISMATCH :: response where
  "MISMATCH = failure 400 ''Invalid OTP''"

definition OK :: response where
  "OK = success_msg ''OTP verified successfully''"

definition verify_otp :: "string \<Rightarrow> string \<Rightarrow> int \<Rightarrow> backend \<Rightarrow> response \<times> backend" where
  "verify_otp email code now s =
     (if email = [] \<or> code = [] then (failure 400 ''Email and OTP are required'', s)
      else
        let emailKey = encodeURIComponent email in
        case otps s emailKey of
          None \<Rightarrow> (NOT_FOUND, s)
        | Some d \<Rightarrow>
            if otp_expiresAt d \<noteq> 0 \<and> now > otp_expiresAt d
            then (EXPIRED, s\<lparr>otps := (otps s)(emailKey := None)\<rparr>)
            else if otp_code d = code
            then (OK, s\<lparr>otps := (otps s)(emailKey := None)\<rparr>)
            else (MISMATCH, s))"

section \<open>Name parts of a new account\<close>

subsection \<open>String operations\<close>

text \<open>
  \<^verbatim>\<open>String.prototype.trim\<close> and the class \<^verbatim>\<open>\s\<close> take the white space and line terminators
  of ECMAScript: tab, line feed, vertical tab, form feed, carriage return, space, and
  U+00A0, U+1680, U+2000 to U+200A, U+2028, U+2029, U+202F, U+205F, U+3000, U+FEFF. In the
  UTF-8 bytes of a string these are one, two or three bytes; \<open>space_length\<close> is the number
  of bytes of the white space character that a byte sequence starts with, or 0.
\<close>

fun space_length_bytes :: "nat list \<Rightarrow> nat" where
  "space_length_bytes [] = 0"
| "space_length_bytes (a # bs) =
     (if a \<in> {0x09, 0x0A, 0x0B, 0x0C, 0x0D, 0x20} then 1
      else
        (case bs of
           [] \<Rightarrow> 0
         | b # cs \<Rightarrow>
             if a = 0xC2 \<and> b = 0xA0 then 2
             else
               (case cs of
                  [] \<Rightarrow> 0
                | c # _ \<Rightarrow>
                    if (a = 0xE1 \<and> b = 0x9A \<and> c = 0x80)
                       \<or> (a = 0xE2 \<and> b = 0x80 \<and> (0x80 \<le> c \<and> c \<le> 0x8A \<or> c = 0xA8 \<or> c = 0xA9 \<or> c = 0xAF))
                       \<or> (a = 0xE2 \<and> b = 0x81 \<and> c = 0x9F)
                       \<or> (a = 0xE3 \<and> b = 0x80 \<and> c = 0x80)
                       \<or> (a = 0xEF \<and> b = 0xBB \<and> c = 0xBF)
                    then 3 else 0)))"

definition space_length :: "string \<Rightarrow> nat" where
  "space_length s = space_length_bytes (map of_char (take 3 s))"

text \<open>The same at the end of a string.\<close>

definition space_length_end :: "string \<Rightarrow> nat" where
  "space_length_end s =
     (let n = length s in
      if 1 \<le> n \<and> space_length (drop (n - 1) s) = 1 then 1
      else if 2 \<le> n \<and> space_length (drop (n - 2) s) = 2 then 2
      else if 3 \<le> n \<and> space_length (drop (n - 3) s) = 3 then 3
      else 0)"

function trim_start :: "string \<Rightarrow> string" where
  "trim_start s = (if space_length s = 0 then s else trim_start (drop (space_length s) s))"
  by pat_completeness auto
termination
proof (relation "measure length")
  fix s :: string
  assume pos: "space_length s \<noteq> 0"
  then have "s \<noteq> []" by (auto simp: space_length_def)
  with pos show "(drop (space_length s) s, s) \<in> measure length" by simp
qed simp

declare trim_start.simps [simp del]

function trim_end :: "string \<Rightarrow> string" where
  "trim_end s =
     (if space_length_end s = 0 then s else trim_end (take (length s - space_length_end s) s))"
  by pat_completeness auto
termination
  by (relation "measure length") (auto simp: space_length_end_def Let_def split: if_splits)

declare trim_end.simps [simp del]

definition js_trim :: "string \<Rightarrow> string" where
  "js_trim s = trim_end (trim_start s)"

text \<open>\<^verbatim>\<open>s.split(c)\<close> for a one-character separator: the pieces between the separators.\<close>

fun split_on :: "char \<Rightarrow> string \<Rightarrow> string list" where
  "split_on c [] = [[]]"
| "split_on c (x # xs) =
     (if x = c then [] # split_on c xs
      else (case split_on c xs of [] \<Rightarrow> [[x]] | p # ps \<Rightarrow> (x # p) # ps))"

text \<open>
  \<^verbatim>\<open>s.split(/\s+/)\<close>: the pieces between the maximal runs of white space. A white space
  character followed by another one continues the run; the last one of a run ends a piece.
\<close>

function split_spaces :: "string \<Rightarrow> string list" where
  "split_spaces [] = [[]]"
| "split_spaces (x # xs) =
     (if space_length (x # xs) = 0
      then (case split_spaces xs of [] \<Rightarrow> [[x]] | p # ps \<Rightarrow> (x # p) # ps)
      else if space_length (drop (space_length (x # xs)) (x # xs)) = 0
      then [] # split_spaces (drop (space_length (x # xs)) (x # xs))
      else split_spaces (drop (space_length (x # xs)) (x # xs)))"
  by pat_completeness auto
termination
  by (relation "measure length") (auto simp: space_length_def)

declare split_spaces.simps [simp del]

text \<open>\<^verbatim>\<open>.filter(Boolean)\<close> on an array of strings drops the empty ones.\<close>

definition filter_Boolean :: "string list \<Rightarrow> string list" where
  "filter_Boolean xs = filter (\<lambda>s. s \<noteq> []) xs"

fun join :: "string \<Rightarrow> string list \<Rightarrow> string" where
  "join sep [] = []"
| "join sep [x] = x"
| "join sep (x # y # ys) = x @ sep @ join sep (y # ys)"

text \<open>\<^verbatim>\<open>a || b\<close> on strings.\<close>

definition or_else :: "string \<Rightarrow> string \<Rightarrow> string" where
  "or_else a b = (if a = [] then b else a)"

subsection \<open>/admin/create-admin: the name parts\<close>

text \<open>
  The request fields \<^verbatim>\<open>fullName\<close>, \<^verbatim>\<open>lastName\<close>, \<^verbatim>\<open>firstName\<close>, \<^verbatim>\<open>middleName\<close> are
  strings or absent (\<open>None\<close>). The result holds the three parts as stored
  (\<^verbatim>\<open>parsed.lastName || ""\<close> and so on) and the composed full name. A destructuring
  that finds no second piece leaves \<^verbatim>\<open>restRaw\<close> undefined and the call on it throws,
  which is \<open>None\<close>.
\<close>

record name_parts =
  np_lastName :: string
  np_firstName :: string
  np_middleName :: string
  np_fullName :: string

definition trim_field :: "string option \<Rightarrow> string" where
  "trim_field s = js_trim (case s of None \<Rightarrow> [] | Some v \<Rightarrow> v)"

definition compose_full_name :: "string option \<Rightarrow> string \<Rightarrow> string \<Rightarrow> string \<Rightarrow> string" where
  "compose_full_name fullName lname fname mname =
     or_else (trim_field fullName)
       (if lname \<noteq> [] \<and> fname \<noteq> []
        then lname @ '', '' @ fname @ (if mname \<noteq> [] then '' '' @ mname else [])
        else [])"

definition parse_name ::
  "string option \<Rightarrow> string option \<Rightarrow> string option \<Rightarrow> string option \<Rightarrow> name_parts option" where
  "parse_name fullName lastName firstName middleName =
     (let pl = trim_field lastName; pf = trim_field firstName; pm = trim_field middleName;
          finish = (\<lambda>lname fname mname.
            Some \<lparr>np_lastName = lname, np_firstName = fname, np_middleName = mname,
                  np_fullName = compose_full_name fullName lname fname mname\<rparr>)
      in if (pl = [] \<or> pf = []) \<and> fullName \<noteq> None \<and> fullName \<noteq> Some [] \<and> trim_field fullName \<noteq> []
         then
           let f = trim_field fullName in
           if CHR '','' \<in> set f then
             (case map js_trim (split_on CHR '','' f) of
                lname # restRaw # _ \<Rightarrow>
                  let rest = filter_Boolean (split_spaces restRaw) in
                  finish (or_else pl lname)
                         (or_else pf (case rest of [] \<Rightarrow> [] | r # _ \<Rightarrow> r))
                         (or_else pm (join '' '' (drop 1 rest)))
              | _ \<Rightarrow> None)
           else
             let parts = filter_Boolean (split_spaces f);
                 lname = (if parts \<noteq> [] then last parts else []);
                 fname = (if parts \<noteq> [] then hd parts else []);
                 mname = (if length parts > 2 then join '' '' (butlast (drop 1 parts)) else [])
             in finish (or_else pl lname) (or_else pf fname) (or_else pm mname)
         else finish pl pf pm)"

section \<open>Accounts\<close>

text \<open>The message of an error of the identity provider, as firebase-admin words it.\<close>

definition auth_error_message :: "auth_error \<Rightarrow> string" where
  "auth_error_message e =
     (case e of
        email_already_exists \<Rightarrow> ''The email address is already in use by another account.''
      | user_not_found \<Rightarrow> ''There is no user record corresponding to the provided identifier.''
      | other_error message \<Rightarrow> message)"

subsection \<open>/api/force-password-change\<close>

definition force_password_change :: "string \<Rightarrow> string \<Rightarrow> backend \<Rightarrow> response \<times> backend" where
  "force_password_change email otp s =
     (if email = [] \<or> otp = [] then (Response 400 [(''error'', JStr ''Email and OTP are required.'')], s)
      else
        case getUserByEmail (auth s) email of
          Inl e \<Rightarrow> (Response 500 [(''error'', JStr (auth_error_message e))], s)
        | Inr u \<Rightarrow>
            (case updateUser (auth s) u (\<lambda>r. r\<lparr>au_password := otp\<rparr>) of
               Inl e \<Rightarrow> (Response 500 [(''error'', JStr (auth_error_message e))], s)
             | Inr a' \<Rightarrow> (Response 200 [(''success'', JBool True)], s\<lparr>auth := a'\<rparr>)))"

subsection \<open>tools/createUser.js: ensureUser\<close>

text \<open>
  \<^verbatim>\<open>set(fields, { merge: true })\<close> on the document of an account: the fields given
  override, the other fields stay, a missing document is created.
\<close>

definition set_merge :: "(uid \<rightharpoonup> doc) \<Rightarrow> uid \<Rightarrow> doc \<Rightarrow> (uid \<rightharpoonup> doc)" where
  "set_merge coll u flds =
     coll(u \<mapsto> (case coll u of None \<Rightarrow> flds | Some d \<Rightarrow> d ++ flds))"

record ensure_result =
  er_created :: bool
  er_uid :: uid
  er_passwordReset :: bool

text \<open>
  \<open>role\<close> is the script's third argument and \<open>now\<close> the server time of the write;
  \<open>other\<close> is the provider's decision on the creation. The result is what the promise
  resolves to, or the error it rejects with; a call that rejects has written nothing.
\<close>

definition ensureUser ::
  "string option \<Rightarrow> string \<Rightarrow> string \<Rightarrow> string \<Rightarrow> int \<Rightarrow> backend
     \<Rightarrow> auth_error + (ensure_result \<times> backend)" where
  "ensureUser other email password role now s =
     (case createUser other (auth s)
             \<lparr>au_email = email, au_password = password, au_emailVerified = True, au_disabled = False\<rparr> of
        Inr (newUid, a') \<Rightarrow>
          Inr (\<lparr>er_created = True, er_uid = newUid, er_passwordReset = False\<rparr>,
               s\<lparr>auth := a',
                 users := set_merge (users s) newUid
                   [''email'' \<mapsto> FStr email, ''role'' \<mapsto> FStr role,
                    ''isEmailVerified'' \<mapsto> FBool True, ''createdAt'' \<mapsto> FTime now]\<rparr>)
      | Inl email_already_exists \<Rightarrow>
          (case getUserByEmail (auth s) email of
             Inl e \<Rightarrow> Inl e
           | Inr existing \<Rightarrow>
               (case updateUser (auth s) existing
                       (\<lambda>r. r\<lparr>au_password := password, au_emailVerified := True, au_disabled := False\<rparr>) of
                  Inl e \<Rightarrow> Inl e
                | Inr a' \<Rightarrow>
                    Inr (\<lparr>er_created = False, er_uid = existing, er_passwordReset = True\<rparr>,
                         s\<lparr>auth := a',
                           users := set_merge (users s) existing
                             [''email'' \<mapsto> FStr email, ''role'' \<mapsto> FStr role,
                              ''isEmailVerified'' \<mapsto> FBool True, ''updatedAt'' \<mapsto> FTime now]\<rparr>)))
      | Inl e \<Rightarrow> Inl e)"

subsection \<open>/admin/ensure-auth-user\<close>

text \<open>
  The password of the account: the one given, else \<^verbatim>\<open>MMDDYYYY\<close> of the birthday when
  \<^verbatim>\<open>new Date(birthday)\<close> is a valid date, else ten characters of a random base-36 string
  followed by \<^verbatim>\<open>Aa1!\<close>. The date parser of the runtime is the parameter \<open>Date_parse\<close>
  (\<open>None\<close> for an invalid date; the month as \<^verbatim>\<open>getMonth()\<close> gives it, from 0), the random
  characters are the parameter \<open>rnd\<close>. \<^verbatim>\<open>String.prototype.toLowerCase\<close>, with the case
  mapping of Unicode, is the parameter \<open>toLowerCase\<close> of the handler, and \<open>other\<close> is the
  provider's decision on the creation.
\<close>

record js_date =
  d_fullYear :: int
  d_month :: nat
  d_date :: nat

definition padStart2 :: "string \<Rightarrow> string" where
  "padStart2 s = replicate (2 - length s) CHR ''0'' @ s"

definition derive_password ::
  "(string \<Rightarrow> js_date option) \<Rightarrow> string option \<Rightarrow> string option \<Rightarrow> string \<Rightarrow> string" where
  "derive_password Date_parse password birthday rnd =
     (let p = (case password of None \<Rightarrow> [] | Some v \<Rightarrow> v) in
      if p \<noteq> [] then p
      else
        let b = (case birthday of None \<Rightarrow> [] | Some v \<Rightarrow> v) in
        case (if b \<noteq> [] then Date_parse b else None) of
          Some d \<Rightarrow>
            padStart2 (string_of_nat (d_month d + 1)) @ padStart2 (string_of_nat (d_date d))
              @ Number_toString (d_fullYear d)
        | None \<Rightarrow> rnd @ ''Aa1!'')"

definition ensure_auth_user ::
  "string option \<Rightarrow> (string \<Rightarrow> js_date option) \<Rightarrow> (string \<Rightarrow> string) \<Rightarrow> string \<Rightarrow> string option
     \<Rightarrow> string option \<Rightarrow> string \<Rightarrow> backend \<Rightarrow> response \<times> backend" where
  "ensure_auth_user other Date_parse toLowerCase email password birthday rnd s =
     (if email = [] then (failure 400 ''Email is required'', s)
      else
        let emailLower = toLowerCase email;
            passwordRaw = derive_password Date_parse password birthday rnd;
            confirm = (\<lambda>u a'.
              case getUser a' u of
                Inl e \<Rightarrow> (failure 500 (auth_error_message e), s\<lparr>auth := a'\<rparr>)
              | Inr _ \<Rightarrow> (Response 200 [(''success'', JBool True), (''uid'', JStr u)], s\<lparr>auth := a'\<rparr>))
        in case createUser other (auth s)
                  \<lparr>au_email = emailLower, au_password = passwordRaw,
                    au_emailVerified = True, au_disabled = False\<rparr> of
             Inr (u, a') \<Rightarrow> confirm u a'
           | Inl email_already_exists \<Rightarrow>
               (case getUserByEmail (auth s) emailLower of
                  Inl e \<Rightarrow> (failure 500 (auth_error_message e), s)
                | Inr u \<Rightarrow>
                    (case updateUser (auth s) u
                            (\<lambda>r. r\<lparr>au_password := passwordRaw, au_emailVerified := True,
                                    au_disabled := False\<rparr>) of
                       Inl e \<Rightarrow> (failure 500 (auth_error_message e), s)
                     | Inr a' \<Rightarrow> confirm u a'))
           | Inl e \<Rightarrow> (failure 500 (auth_error_message e), s))"

subsection \<open>/admin/archive-admin\<close>

text \<open>
  A write of a batch gives each field a value, the server's time
  (\<^verbatim>\<open>FieldValue.serverTimestamp()\<close>) or removes it (\<^verbatim>\<open>FieldValue.delete()\<close>). A batch is
  applied by \<^verbatim>\<open>commit\<close> as a whole: when one of its documents is missing, nothing is
  written.
\<close>

datatype field_write = Write fsval | ServerTimestamp | Delete

type_synonym batch = "(string \<times> (string \<times> field_write) list) list"

fun apply_writes :: "int \<Rightarrow> (string \<times> field_write) list \<Rightarrow> doc \<Rightarrow> doc" where
  "apply_writes now [] d = d"
| "apply_writes now ((k, Write v) # ws) d = apply_writes now ws (d(k \<mapsto> v))"
| "apply_writes now ((k, ServerTimestamp) # ws) d = apply_writes now ws (d(k \<mapsto> FTime now))"
| "apply_writes now ((k, Delete) # ws) d = apply_writes now ws (d(k := None))"

fun apply_batch :: "int \<Rightarrow> batch \<Rightarrow> string \<times> doc \<Rightarrow> string \<times> doc" where
  "apply_batch now [] p = p"
| "apply_batch now ((i, ws) # b) p =
     apply_batch now b (if fst p = i then (fst p, apply_writes now ws (snd p)) else p)"

definition commit :: "int \<Rightarrow> batch \<Rightarrow> (string \<times> doc) list \<Rightarrow> (string \<times> doc) list option" where
  "commit now b coll =
     (if list_all (\<lambda>w. map_of coll (fst w) \<noteq> None) b then Some (map (apply_batch now b) coll)
      else None)"

datatype js_error = ReferenceError string

text \<open>
  The handler names \<^verbatim>\<open>requesterEmail\<close> where it archives. No declaration of that name
  exists in the handler or in the module, so evaluating it throws.
\<close>

definition requesterEmail :: "js_error + string" where
  "requesterEmail = Inl (ReferenceError ''requesterEmail is not defined'')"

definition archive_update :: "bool \<Rightarrow> js_error + (string \<times> field_write) list" where
  "archive_update disable =
     (if disable then
        (case requesterEmail of
           Inl e \<Rightarrow> Inl e
         | Inr r \<Rightarrow>
             Inr [(''isArchived'', Write (FBool True)), (''archivedAt'', ServerTimestamp),
                  (''archivedBy'', Write (FStr r))])
      else
        Inr [(''isArchived'', Write (FBool False)), (''archivedAt'', Delete),
             (''archivedBy'', Delete)])"

text \<open>The \<^verbatim>\<open>forEach\<close> over the documents found: the first throw ends it.\<close>

fun build_batch :: "bool \<Rightarrow> (string \<times> doc) list \<Rightarrow> js_error + batch" where
  "build_batch disable [] = Inr []"
| "build_batch disable (p # ps) =
     (case archive_update disable of
        Inl e \<Rightarrow> Inl e
      | Inr ws \<Rightarrow>
          (case build_batch disable ps of
             Inl e \<Rightarrow> Inl e
           | Inr b \<Rightarrow> Inr ((fst p, ws) # b)))"

definition fs_truthy :: "fsval option \<Rightarrow> bool" where
  "fs_truthy v =
     (case v of
        None \<Rightarrow> False
      | Some (FStr s) \<Rightarrow> s \<noteq> []
      | Some (FBool b) \<Rightarrow> b
      | Some (FNum n) \<Rightarrow> n \<noteq> 0
      | Some _ \<Rightarrow> True)"

definition createdBy_email :: "doc \<Rightarrow> fsval option" where
  "createdBy_email d = (case d ''createdBy'' of Some (FMap m) \<Rightarrow> map_of m ''email'' | _ \<Rightarrow> None)"

text \<open>The account is disabled or enabled at the provider, by its id or else by its stored email.\<close>

definition set_disabled_best_effort :: "backend \<Rightarrow> uid \<Rightarrow> bool \<Rightarrow> auth_db" where
  "set_disabled_best_effort s u disable =
     (case updateUser (auth s) u (\<lambda>r. r\<lparr>au_disabled := disable\<rparr>) of
        Inr a' \<Rightarrow> a'
      | Inl _ \<Rightarrow>
          (case users s u of
             None \<Rightarrow> auth s
           | Some d \<Rightarrow>
               (case d ''email'' of
                  Some (FStr maybeEmail) \<Rightarrow>
                    if maybeEmail = [] then auth s
                    else
                      (case getUserByEmail (auth s) maybeEmail of
                         Inl _ \<Rightarrow> auth s
                       | Inr u' \<Rightarrow>
                           (case updateUser (auth s) u' (\<lambda>r. r\<lparr>au_disabled := disable\<rparr>) of
                              Inl _ \<Rightarrow> auth s
                            | Inr a' \<Rightarrow> a'))
                | _ \<Rightarrow> auth s)))"

definition cascade :: "bool \<Rightarrow> int \<Rightarrow> fsval option \<Rightarrow> (string \<times> doc) list \<Rightarrow> (string \<times> doc) list" where
  "cascade disable now userEmail stock =
     (if fs_truthy userEmail then
        let vaccineStockDocs = filter (\<lambda>p. createdBy_email (snd p) = userEmail) stock in
        if vaccineStockDocs \<noteq> [] then
          (case build_batch disable vaccineStockDocs of
             Inl _ \<Rightarrow> stock
           | Inr b \<Rightarrow> (case commit now b stock of None \<Rightarrow> stock | Some stock' \<Rightarrow> stock'))
        else stock
      else stock)"

definition archive_admin :: "uid \<Rightarrow> bool option \<Rightarrow> int \<Rightarrow> backend \<Rightarrow> response \<times> backend" where
  "archive_admin u disable now s =
     (case disable of
        None \<Rightarrow> (failure 400 ''Missing uid or disable flag'', s)
      | Some dis \<Rightarrow>
          if u = [] then (failure 400 ''Missing uid or disable flag'', s)
          else
            let userEmail = (case users s u of None \<Rightarrow> None | Some d \<Rightarrow> d ''email'') in
            (success_msg (if dis then ''Admin archived'' else ''Admin unarchived''),
             s\<lparr>auth := set_disabled_best_effort s u dis,
               users := set_merge (users s) u [''isActive'' \<mapsto> FBool (\<not> dis)],
               vaccineStock := cascade dis now userEmail (vaccineStock s)\<rparr>))"

section \<open>The email-change token\<close>

subsection \<open>The runtime\<close>

text \<open>
  The codec calls Node's \<^verbatim>\<open>crypto\<close>, \<^verbatim>\<open>Buffer\<close> and \<^verbatim>\<open>JSON\<close>, which are not code of the
  repository. They are parameters, gathered in a record: the hexadecimal HMAC-SHA256 digest
  of a message under a key, the base64url encoding and decoding of a byte string,
  \<^verbatim>\<open>JSON.stringify\<close>, \<^verbatim>\<open>JSON.parse\<close> (\<open>None\<close> when it throws) and the conversion of a string
  to a number that \<^verbatim>\<open>Number\<close> applies.
\<close>

datatype js_number = Finite int | NaN | PosInfinity | NegInfinity

record js_runtime =
  hmac_sha256_hex :: "string \<Rightarrow> string \<Rightarrow> string"
  base64url_encode :: "string \<Rightarrow> string"
  base64url_decode :: "string \<Rightarrow> string"
  JSON_stringify :: "jsval \<Rightarrow> string"
  JSON_parse :: "string \<Rightarrow> jsval option"
  StringToNumber :: "string \<Rightarrow> js_number"

subsection \<open>createEmailChangeToken\<close>

text \<open>\<^verbatim>\<open>{ ...payload, iat: issuedAt, exp: expiresAt }\<close>: a key of the payload keeps its place.\<close>

fun obj_set :: "string \<Rightarrow> jsval \<Rightarrow> (string \<times> jsval) list \<Rightarrow> (string \<times> jsval) list" where
  "obj_set k v [] = [(k, v)]"
| "obj_set k v (p # ps) = (if fst p = k then (k, v) # ps else p # obj_set k v ps)"

definition token_body :: "(string \<times> jsval) list \<Rightarrow> int \<Rightarrow> int \<Rightarrow> jsval" where
  "token_body payload issuedAt expiresAt =
     JObj (obj_set ''exp'' (JNum expiresAt) (obj_set ''iat'' (JNum issuedAt) payload))"

text \<open>\<open>ttlMs\<close> is \<open>None\<close> when the caller leaves it out: the default is 24 hours.\<close>

definition createEmailChangeToken ::
  "js_runtime \<Rightarrow> (string \<times> jsval) list \<Rightarrow> string \<Rightarrow> int option \<Rightarrow> int \<Rightarrow> string" where
  "createEmailChangeToken rt payload secret ttlMs now =
     (let issuedAt = now;
          expiresAt = issuedAt + (case ttlMs of None \<Rightarrow> 24 * 60 * 60 * 1000 | Some t \<Rightarrow> t);
          body = JSON_stringify rt (token_body payload issuedAt expiresAt);
          signature = hmac_sha256_hex rt secret body
      in base64url_encode rt body @ ''.'' @ signature)"

subsection \<open>verifyEmailChangeToken\<close>

text \<open>
  \<^verbatim>\<open>data.exp\<close>: reading a property of \<^verbatim>\<open>null\<close> throws (\<open>None\<close>); an object gives the value
  under the key or \<^verbatim>\<open>undefined\<close> (\<open>Some None\<close>); any other value gives \<^verbatim>\<open>undefined\<close>.
\<close>

definition property_exp :: "jsval \<Rightarrow> jsval option option" where
  "property_exp data =
     (case data of
        JNull \<Rightarrow> None
      | JObj kv \<Rightarrow> Some (map_of kv ''exp'')
      | _ \<Rightarrow> Some None)"

text \<open>The string of a value, as \<^verbatim>\<open>Array.prototype.join\<close> needs it to convert an array.\<close>

fun js_ToString :: "jsval \<Rightarrow> string" where
  "js_ToString JNull = ''null''"
| "js_ToString (JBool b) = (if b then ''true'' else ''false'')"
| "js_ToString (JNum n) = Number_toString n"
| "js_ToString (JStr s) = s"
| "js_ToString (JArr xs) =
     join '','' (map (\<lambda>x. if x = JNull then [] else js_ToString x) xs)"
| "js_ToString (JObj kv) = ''[object Object]''"

text \<open>\<^verbatim>\<open>Number(data.exp || 0)\<close>: a falsy value counts as 0.\<close>

definition exp_number :: "js_runtime \<Rightarrow> jsval option \<Rightarrow> js_number" where
  "exp_number rt e =
     (case e of
        None \<Rightarrow> Finite 0
      | Some JNull \<Rightarrow> Finite 0
      | Some (JBool b) \<Rightarrow> Finite (if b then 1 else 0)
      | Some (JNum n) \<Rightarrow> Finite n
      | Some (JStr s) \<Rightarrow> if s = [] then Finite 0 else StringToNumber rt s
      | Some (JArr xs) \<Rightarrow> StringToNumber rt (js_ToString (JArr xs))
      | Some (JObj kv) \<Rightarrow> NaN)"

text \<open>\<^verbatim>\<open>Date.now() > x\<close>: false against \<^verbatim>\<open>NaN\<close>.\<close>

definition now_after :: "int \<Rightarrow> js_number \<Rightarrow> bool" where
  "now_after now x =
     (case x of Finite n \<Rightarrow> now > n | NaN \<Rightarrow> False | PosInfinity \<Rightarrow> False | NegInfinity \<Rightarrow> True)"

text \<open>
  The result is the payload, or \<open>None\<close> for \<^verbatim>\<open>null\<close>. The destructuring takes the first two
  pieces of \<^verbatim>\<open>token.split(".")\<close>; a missing second piece is \<^verbatim>\<open>undefined\<close>, which no
  digest equals. What throws inside the \<^verbatim>\<open>try\<close> is caught and gives \<^verbatim>\<open>null\<close>.
\<close>

definition verifyEmailChangeToken :: "js_runtime \<Rightarrow> string \<Rightarrow> string \<Rightarrow> int \<Rightarrow> jsval option" where
  "verifyEmailChangeToken rt token secret now =
     (if token = [] \<or> CHR ''.'' \<notin> set token then None
      else
        case split_on CHR ''.'' token of
          [] \<Rightarrow> None
        | bodyB64 # rest \<Rightarrow>
            let bodyJson = base64url_decode rt bodyB64;
                expected = hmac_sha256_hex rt secret bodyJson
            in case rest of
                 [] \<Rightarrow> None
               | signature # _ \<Rightarrow>
                   if expected \<noteq> signature then None
                   else
                     (case JSON_parse rt bodyJson of
                        None \<Rightarrow> None
                      | Some data \<Rightarrow>
                          (case property_exp data of
                             None \<Rightarrow> None
                           | Some e \<Rightarrow>
                               if now_after now (exp_number rt e) then None else Some data)))"

subsection \<open>A small runtime for the concrete runs\<close>

text \<open>
  base64url without padding as RFC 4648 defines it; a JSON printer for values whose strings
  need no escaping, with a parser that inverts it on a list of known values; HMAC as
  RFC 2104 defines it (the key padded with zero bytes to the block of 64 bytes, the inner
  and the outer pad), over a 16-bit checksum standing in for SHA-256. The theorems about
  the codec hold for every runtime; this one runs them on an example.
\<close>

definition b64_alphabet :: string where
  "b64_alphabet = ''ABCDEFGHIJKLMNOPQRSTUVWXYZabcdefghijklmnopqrstuvwxyz0123456789-_''"

fun b64_sextets :: "nat list \<Rightarrow> nat list" where
  "b64_sextets (a # b # c # r) =
     [a div 4, (a mod 4) * 16 + b div 16, (b mod 16) * 4 + c div 64, c mod 64] @ b64_sextets r"
| "b64_sextets [a, b] = [a div 4, (a mod 4) * 16 + b div 16, (b mod 16) * 4]"
| "b64_sextets [a] = [a div 4, (a mod 4) * 16]"
| "b64_sextets [] = []"

fun b64_octets :: "nat list \<Rightarrow> nat list" where
  "b64_octets (a # b # c # d # r) =
     [a * 4 + b div 16, (b mod 16) * 16 + c div 4, (c mod 4) * 64 + d] @ b64_octets r"
| "b64_octets [a, b, c] = [a * 4 + b div 16, (b mod 16) * 16 + c div 4]"
| "b64_octets [a, b] = [a * 4 + b div 16]"
| "b64_octets _ = []"

definition b64_value :: "char \<Rightarrow> nat option" where
  "b64_value c =
     map_of
       [(CHR ''A'', 0), (CHR ''B'', 1), (CHR ''C'', 2), (CHR ''D'', 3), (CHR ''E'', 4), (CHR
        ''F'', 5), (CHR ''G'', 6), (CHR ''H'', 7), (CHR ''I'', 8), (CHR ''J'', 9), (CHR
        ''K'', 10), (CHR ''L'', 11), (CHR ''M'', 12), (CHR ''N'', 13), (CHR ''O'', 14), (CHR
        ''P'', 15), (CHR ''Q'', 16), (CHR ''R'', 17), (CHR ''S'', 18), (CHR ''T'', 19), (CHR
        ''U'', 20), (CHR ''V'', 21), (CHR ''W'', 22), (CHR ''X'', 23), (CHR ''Y'', 24), (CHR
        ''Z'', 25), (CHR ''a'', 26), (CHR ''b'', 27), (CHR ''c'', 28), (CHR ''d'', 29), (CHR
        ''e'', 30), (CHR ''f'', 31), (CHR ''g'', 32), (CHR ''h'', 33), (CHR ''i'', 34), (CHR
        ''j'', 35), (CHR ''k'', 36), (CHR ''l'', 37), (CHR ''m'', 38), (CHR ''n'', 39), (CHR
        ''o'', 40), (CHR ''p'', 41), (CHR ''q'', 42), (CHR ''r'', 43), (CHR ''s'', 44), (CHR
        ''t'', 45), (CHR ''u'', 46), (CHR ''v'', 47), (CHR ''w'', 48), (CHR ''x'', 49), (CHR
        ''y'', 50), (CHR ''z'', 51), (CHR ''0'', 52), (CHR ''1'', 53), (CHR ''2'', 54), (CHR
        ''3'', 55), (CHR ''4'', 56), (CHR ''5'', 57), (CHR ''6'', 58), (CHR ''7'', 59), (CHR
        ''8'', 60), (CHR ''9'', 61), (CHR ''-'', 62), (CHR ''_'', 63)] c"

definition demo_base64url_encode :: "string \<Rightarrow> string" where
  "demo_base64url_encode s = map (\<lambda>n. b64_alphabet ! n) (b64_sextets (map of_char s))"

definition demo_base64url_decode :: "string \<Rightarrow> string" where
  "demo_base64url_decode s =
     map char_of (b64_octets (List.map_filter b64_value s))"

fun demo_stringify :: "jsval \<Rightarrow> string" where
  "demo_stringify JNull = ''null''"
| "demo_stringify (JBool b) = (if b then ''true'' else ''false'')"
| "demo_stringify (JNum n) = Number_toString n"
| "demo_stringify (JStr s) = CHR 0x22 # s @ [CHR 0x22]"
| "demo_stringify (JArr xs) = ''['' @ join '','' (map demo_stringify xs) @ '']''"
| "demo_stringify (JObj kv) =
     ''{'' @ join '','' (map (\<lambda>p. CHR 0x22 # fst p @ [CHR 0x22, CHR '':''] @ demo_stringify (snd p)) kv)
       @ ''}''"

definition demo_payload :: "(string \<times> jsval) list" where
  "demo_payload = [(''uid'', JStr ''u1'')]"

definition demo_values :: "jsval list" where
  "demo_values = [token_body demo_payload 1000 1500]"

definition pad_key :: "(nat list \<Rightarrow> nat list) \<Rightarrow> nat \<Rightarrow> nat list \<Rightarrow> nat list" where
  "pad_key H block key =
     (let k = (if block < length key then H key else key)
      in k @ replicate (block - length k) 0)"

definition hmac :: "(nat list \<Rightarrow> nat list) \<Rightarrow> nat \<Rightarrow> nat list \<Rightarrow> nat list \<Rightarrow> nat list" where
  "hmac H block key msg =
     H (map (\<lambda>b. b XOR 0x5C) (pad_key H block key)
          @ H (map (\<lambda>b. b XOR 0x36) (pad_key H block key) @ msg))"

definition demo_hash :: "nat list \<Rightarrow> nat list" where
  "demo_hash bytes =
     (let h = foldl (\<lambda>h b. (h * 31 + b) mod 65536) 7 bytes in [h div 256, h mod 256])"

definition hex_of_bytes :: "nat list \<Rightarrow> string" where
  "hex_of_bytes bytes =
     concat (map (\<lambda>b. [''0123456789abcdef'' ! (b div 16), ''0123456789abcdef'' ! (b mod 16)]) bytes)"

definition demo_digest :: "string \<Rightarrow> string \<Rightarrow> string" where
  "demo_digest key msg = hex_of_bytes (hmac demo_hash 64 (map of_char key) (map of_char msg))"

definition demo_runtime :: js_runtime where
  "demo_runtime =
     \<lparr>hmac_sha256_hex = demo_digest,
      base64url_encode = demo_base64url_encode,
      base64url_decode = demo_base64url_decode,
      JSON_stringify = demo_stringify,
      JSON_parse = (\<lambda>s. find (\<lambda>v. demo_stringify v = s) demo_values),
      StringToNumber = (\<lambda>s. if s = [] then Finite 0 else NaN)\<rparr>"

section \<open>Fixtures and predicates of the statements\<close>

text \<open>A backend with no account, no document and no passcode, for the concrete runs.\<close>

definition empty_backend :: backend where
  "empty_backend = \<lparr>auth = [], users = Map.empty, otps = Map.empty, vaccineStock = []\<rparr>"

text \<open>
  \<^verbatim>\<open>String.prototype.toLowerCase\<close> on strings of ASCII characters, for the concrete runs.
\<close>

definition ascii_lower_char :: "char \<Rightarrow> char" where
  "ascii_lower_char c =
     (case map_of (zip ''ABCDEFGHIJKLMNOPQRSTUVWXYZ'' ''abcdefghijklmnopqrstuvwxyz'') c of
        None \<Rightarrow> c
      | Some l \<Rightarrow> l)"

definition ascii_toLowerCase :: "string \<Rightarrow> string" where
  "ascii_toLowerCase s = map ascii_lower_char s"


text \<open>
  A backend with one account \<open>u1\<close>, its profile, and two vaccine stock records, the first
  created by that account.
\<close>

definition registered_backend :: backend where
  "registered_backend =
     \<lparr>auth = [(''u1'', \<lparr>au_email = ''a@x.com'', au_password = ''secret1'',
                        au_emailVerified = True, au_disabled = False\<rparr>)],
      users = [''u1'' \<mapsto> [''email'' \<mapsto> FStr ''a@x.com'', ''role'' \<mapsto> FStr ''employee'',
                           ''isActive'' \<mapsto> FBool True]],
      otps = Map.empty,
      vaccineStock =
        [(''v1'', [''name'' \<mapsto> FStr ''BCG'', ''isArchived'' \<mapsto> FBool False,
                   ''createdBy'' \<mapsto> FMap [(''uid'', FStr ''u1''), (''email'', FStr ''a@x.com'')]]),
         (''v2'', [''name'' \<mapsto> FStr ''OPV'', ''isArchived'' \<mapsto> FBool False,
                   ''createdBy'' \<mapsto> FMap [(''uid'', FStr ''u2''), (''email'', FStr ''b@x.com'')]])]\<rparr>"

text \<open>The archive state of a stock record: its id and the three fields of the cascade.\<close>

definition archive_fields :: "string \<times> doc \<Rightarrow> string \<times> fsval option \<times> fsval option \<times> fsval option" where
  "archive_fields p = (fst p, snd p ''isArchived'', snd p ''archivedAt'', snd p ''archivedBy'')"

text \<open>The serialized body and the token of the example payload, issued at 1000 for 500 ms.\<close>

definition demo_body :: string where
  "demo_body = demo_stringify (token_body demo_payload 1000 1500)"

definition demo_token :: string where
  "demo_token = ''eyJ1aWQiOiJ1MSIsImlhdCI6MTAwMCwiZXhwIjoxNTAwfQ.6717''"

section \<open>Verified properties\<close>

subsection \<open>Decimal strings and URI keys\<close>

lemma hex_digit_inj: "d < 16 \<Longrightarrow> e < 16 \<Longrightarrow> hex_digit d = hex_digit e \<Longrightarrow> d = e"
  unfolding hex_digit_def by (subst (asm) nth_eq_iff_index_eq) simp_all

lemma unreserved_percent: "\<not> uri_unreserved (CHR ''%'')"
  by (simp add: uri_unreserved_def)

lemma percent_encode_inj_step:
  "percent_encode x @ A = percent_encode y @ B \<Longrightarrow> x = y \<and> A = B"
proof -
  assume eq: "percent_encode x @ A = percent_encode y @ B"
  have nib: "n div 16 < 16" if "n < 256" for n :: nat
    using that by arith
  have byte: "(of_char x :: nat) div 16 < 16" "(of_char y :: nat) div 16 < 16"
    "(of_char x :: nat) mod 16 < 16" "(of_char y :: nat) mod 16 < 16"
    by (simp_all add: nib)
  show ?thesis
  proof (cases "uri_unreserved x")
    case ux: True
    show ?thesis
    proof (cases "uri_unreserved y")
      case True
      with ux eq show ?thesis by (simp add: percent_encode_def)
    next
      case False
      with ux eq have "x = CHR ''%''" by (simp add: percent_encode_def)
      with ux unreserved_percent show ?thesis by simp
    qed
  next
    case nx: False
    show ?thesis
    proof (cases "uri_unreserved y")
      case True
      with nx eq have "y = CHR ''%''" by (simp add: percent_encode_def)
      with True unreserved_percent show ?thesis by simp
    next
      case False
      with nx eq have h: "hex_digit (of_char x div 16) = hex_digit (of_char y div 16)"
        "hex_digit (of_char x mod 16) = hex_digit (of_char y mod 16)" and AB: "A = B"
        by (simp_all add: percent_encode_def)
      have "(of_char x :: nat) div 16 = of_char y div 16"
        using hex_digit_inj [OF byte(1) byte(2) h(1)] .
      moreover have "(of_char x :: nat) mod 16 = of_char y mod 16"
        using hex_digit_inj [OF _ _ h(2)] by simp
      ultimately have "(of_char x :: nat) = of_char y"
        by (metis div_mult_mod_eq)
      then have "x = y" by simp
      with AB show ?thesis by simp
    qed
  qed
qed

lemma percent_encode_nonempty: "percent_encode c \<noteq> []"
  by (simp add: percent_encode_def)

lemma encodeURIComponent_inj: "encodeURIComponent a = encodeURIComponent b \<Longrightarrow> a = b"
proof (induction a arbitrary: b)
  case Nil
  then show ?case by (cases b) (auto simp: encodeURIComponent_def percent_encode_nonempty)
next
  case (Cons x xs)
  show ?case
  proof (cases b)
    case Nil
    with Cons.prems show ?thesis by (auto simp: encodeURIComponent_def percent_encode_nonempty)
  next
    case (Cons y ys)
    with Cons.prems have "percent_encode x @ encodeURIComponent xs = percent_encode y @ encodeURIComponent ys"
      by (simp add: encodeURIComponent_def)
    then have "x = y \<and> encodeURIComponent xs = encodeURIComponent ys"
      by (rule percent_encode_inj_step)
    with Cons.IH Cons show ?thesis by simp
  qed
qed

lemma string_of_nat_nonempty: "string_of_nat n \<noteq> []"
  by (subst string_of_nat.simps) simp

lemma Number_toString_nonempty: "Number_toString i \<noteq> []"
  by (simp add: Number_toString_def string_of_nat_nonempty)

lemma generate_otp_nonempty: "generate_otp r \<noteq> []"
  by (simp add: generate_otp_def Number_toString_nonempty)






subsection \<open>Binary64 arithmetic\<close>


lemma two_pow_powr: "two_pow k = 2 powr (real_of_int k)"
proof (cases "0 \<le> k")
  case True
  then have "2 powr (real_of_int k) = 2 powr (real (nat k))" by simp
  also have "\<dots> = 2 ^ nat k" by (simp add: powr_realpow)
  finally show ?thesis using True by (simp add: two_pow_def)
next
  case False
  then have "2 powr (real_of_int k) = 2 powr (- real (nat (- k)))" by simp
  also have "\<dots> = 1 / 2 ^ nat (- k)" by (simp add: powr_minus powr_realpow divide_inverse)
  finally show ?thesis using False by (simp add: two_pow_def)
qed



lemma two_pow_le_iff: "(two_pow a \<le> two_pow b) = (a \<le> b)"
  by (simp add: two_pow_powr)








lemma round_half_even_int: "round_half_even (of_int m) = m"
  by (simp add: round_half_even_def)











subsection \<open>Passcode issuance and verification\<close>

lemma verify_answers_distinct:
  "OK \<noteq> NOT_FOUND" "OK \<noteq> EXPIRED" "OK \<noteq> MISMATCH"
  "NOT_FOUND \<noteq> EXPIRED" "NOT_FOUND \<noteq> MISMATCH" "EXPIRED \<noteq> MISMATCH"
  by (simp_all add: OK_def NOT_FOUND_def EXPIRED_def MISMATCH_def failure_def success_msg_def)

lemma failure_not_OK: "failure c m \<noteq> OK"
  by (simp add: OK_def failure_def success_msg_def)

lemma verify_otp_OK_D:
  assumes "verify_otp email code now s = (OK, s')"
  shows "email \<noteq> [] \<and> code \<noteq> [] \<and> s' = s\<lparr>otps := (otps s)(encodeURIComponent email := None)\<rparr>"
proof -
  from assms have ne: "email \<noteq> []" "code \<noteq> []"
    by (auto simp: verify_otp_def failure_not_OK)
  from assms ne show ?thesis
    by (cases "otps s (encodeURIComponent email)")
       (auto simp: verify_otp_def Let_def verify_answers_distinct verify_answers_distinct [symmetric] split: if_splits)
qed

lemma fst_verify_otp:
  "fst (verify_otp email code now s) =
     (if email = [] \<or> code = [] then failure 400 ''Email and OTP are required''
      else case otps s (encodeURIComponent email) of
             None \<Rightarrow> NOT_FOUND
           | Some d \<Rightarrow>
               if otp_expiresAt d \<noteq> 0 \<and> now > otp_expiresAt d then EXPIRED
               else if otp_code d = code then OK else MISMATCH)"
  by (simp add: verify_otp_def Let_def split: option.splits)

lemma send_otp_state:
  "email \<noteq> [] \<Longrightarrow>
   snd (send_otp email r now mail s) =
     s\<lparr>auth := set_password_best_effort (auth s) email (generate_otp r),
       otps := (otps s)(encodeURIComponent email \<mapsto>
         \<lparr>otp_code = generate_otp r, otp_createdAt = now, otp_expiresAt = now + 300000\<rparr>)\<rparr>"
  by (cases mail) (simp_all add: send_otp_def Let_def)

lemmas eval_binary64 = generate_otp_number_def binary64_def ulp_def binade_def two_pow_def
  round_half_even_def bit_length.simps Let_def


lemma generate_otp_0: "generate_otp 0 = ''100000''"
  by (simp add: generate_otp_def eval_binary64 Number_toString_def string_of_nat.simps digit_char_def)

lemma generate_otp_half: "generate_otp (1 / 2) = ''550000''"
  by (simp add: generate_otp_def eval_binary64 Number_toString_def string_of_nat.simps digit_char_def)

lemma generate_otp_small: "generate_otp (1 / 2 ^ 20) = ''100000''"
  by (simp add: generate_otp_def eval_binary64 Number_toString_def string_of_nat.simps digit_char_def)

lemma generate_otp_last: "generate_otp (1 - 1 / 2 ^ 53) = ''999999''"
  by (simp add: generate_otp_def eval_binary64 Number_toString_def string_of_nat.simps digit_char_def)

text \<open>The roundings count: at this draw the sum is rounded up to 100030, which the exact sum
  does not reach.\<close>

lemma generate_otp_number_rounded:
  "binary64 (150119987579 / 2 ^ 52) = 150119987579 / 2 ^ 52
   \<and> generate_otp_number (150119987579 / 2 ^ 52) = 100030
   \<and> \<lfloor>100000 + (150119987579 / 2 ^ 52) * (900000::real)\<rfloor> = 100029"
  by (simp add: eval_binary64)

text \<open>
  C3. A passcode verifies at most once per issuance: when \<^verbatim>\<open>/verify-otp\<close> answers OK it has
  deleted the record, so the next call with the same email and the same code, at any
  later time and with no issuance in between, answers NOT_FOUND.
\<close>

theorem verify_once:
  "verify_otp email code now s = (OK, s') \<Longrightarrow> fst (verify_otp email code now' s') = NOT_FOUND"
  by (drule verify_otp_OK_D) (simp add: verify_otp_def)

theorem verify_once_witness:
  "verify_otp ''a@x.com'' ''100000'' 1000 (snd (send_otp ''a@x.com'' 0 0 Sent empty_backend))
     = (OK, (snd (send_otp ''a@x.com'' 0 0 Sent empty_backend))
              \<lparr>otps := (otps (snd (send_otp ''a@x.com'' 0 0 Sent empty_backend)))
                 (encodeURIComponent ''a@x.com'' := None)\<rparr>)
   \<and> fst (verify_otp ''a@x.com'' ''100000'' 2000
        ((snd (send_otp ''a@x.com'' 0 0 Sent empty_backend))
              \<lparr>otps := (otps (snd (send_otp ''a@x.com'' 0 0 Sent empty_backend)))
                 (encodeURIComponent ''a@x.com'' := None)\<rparr>)) = NOT_FOUND"
proof -
  let ?s = "snd (send_otp ''a@x.com'' 0 0 Sent empty_backend)"
  have run: "verify_otp ''a@x.com'' ''100000'' 1000 ?s
      = (OK, ?s\<lparr>otps := (otps ?s)(encodeURIComponent ''a@x.com'' := None)\<rparr>)"
    by (simp add: send_otp_state verify_otp_def generate_otp_0)
  from verify_once [OF run] run show ?thesis by simp
qed

text \<open>
  C4, as amended. Issuing twice for one non-empty email overwrites the record: after the
  second issuance the collection holds, under the email's key, the record of the second
  issuance only. Until that record expires, verifying the second code answers OK, and
  verifying the first code answers MISMATCH, keeping the record, when the two codes differ
  (when the second draw gives the first code again, that code is the one on record and
  answers OK). After the expiry either verification answers EXPIRED.
\<close>

theorem reissue_invalidates_first:
  assumes "email \<noteq> []"
    and "s2 = snd (send_otp email r2 now2 mail2 (snd (send_otp email r1 now1 mail1 s)))"
  shows "otps s2 =
           (otps s)(encodeURIComponent email \<mapsto>
             \<lparr>otp_code = generate_otp r2, otp_createdAt = now2, otp_expiresAt = now2 + 300000\<rparr>)
       \<and> fst (verify_otp email (generate_otp r2) now3 s2) =
           (if now2 + 300000 \<noteq> 0 \<and> now2 + 300000 < now3 then EXPIRED else OK)
       \<and> fst (verify_otp email (generate_otp r1) now3 s2) =
           (if now2 + 300000 \<noteq> 0 \<and> now2 + 300000 < now3 then EXPIRED
            else if generate_otp r1 = generate_otp r2 then OK else MISMATCH)
       \<and> (generate_otp r1 \<noteq> generate_otp r2 \<and> now3 \<le> now2 + 300000 \<longrightarrow>
            verify_otp email (generate_otp r1) now3 s2 = (MISMATCH, s2))"
proof -
  have st: "otps s2 =
           (otps s)(encodeURIComponent email \<mapsto>
             \<lparr>otp_code = generate_otp r2, otp_createdAt = now2, otp_expiresAt = now2 + 300000\<rparr>)"
    using assms by (simp add: send_otp_state)
  then have rec: "otps s2 (encodeURIComponent email) =
      Some \<lparr>otp_code = generate_otp r2, otp_createdAt = now2, otp_expiresAt = now2 + 300000\<rparr>"
    by simp
  have second: "fst (verify_otp email (generate_otp r2) now3 s2) =
           (if now2 + 300000 \<noteq> 0 \<and> now2 + 300000 < now3 then EXPIRED else OK)"
    using assms(1) by (simp add: fst_verify_otp rec generate_otp_nonempty)
  have first: "fst (verify_otp email (generate_otp r1) now3 s2) =
           (if now2 + 300000 \<noteq> 0 \<and> now2 + 300000 < now3 then EXPIRED
            else if generate_otp r1 = generate_otp r2 then OK else MISMATCH)"
    using assms(1) by (auto simp: fst_verify_otp rec generate_otp_nonempty)
  have kept: "generate_otp r1 \<noteq> generate_otp r2 \<and> now3 \<le> now2 + 300000 \<longrightarrow>
            verify_otp email (generate_otp r1) now3 s2 = (MISMATCH, s2)"
    using assms(1) by (auto simp: verify_otp_def rec generate_otp_nonempty)
  from st second first kept show ?thesis by blast
qed

theorem reissue_invalidates_first_witness:
  "''a@x.com'' \<noteq> [] \<and> generate_otp 0 \<noteq> generate_otp (1 / 2) \<and> (400000::int) \<le> 200000 + 300000
   \<and> fst (verify_otp ''a@x.com'' ''100000'' 400000
        (snd (send_otp ''a@x.com'' (1 / 2) 200000 Sent
          (snd (send_otp ''a@x.com'' 0 0 Sent empty_backend))))) = MISMATCH
   \<and> fst (verify_otp ''a@x.com'' ''550000'' 400000
        (snd (send_otp ''a@x.com'' (1 / 2) 200000 Sent
          (snd (send_otp ''a@x.com'' 0 0 Sent empty_backend))))) = OK"
proof -
  have h: "''a@x.com'' \<noteq> []" by simp
  note run = reissue_invalidates_first [OF h refl, where ?r1.0 = 0 and ?r2.0 = "1 / 2"
      and ?now3.0 = 400000 and ?now2.0 = 200000 and ?now1.0 = 0 and ?mail1.0 = Sent
      and ?mail2.0 = Sent and s = empty_backend]
  from run have "fst (verify_otp ''a@x.com'' (generate_otp 0) 400000
        (snd (send_otp ''a@x.com'' (1 / 2) 200000 Sent
          (snd (send_otp ''a@x.com'' 0 0 Sent empty_backend))))) =
      (if generate_otp 0 = generate_otp (1 / 2) then OK else MISMATCH)"
    by simp
  moreover from run have "fst (verify_otp ''a@x.com'' (generate_otp (1 / 2)) 400000
        (snd (send_otp ''a@x.com'' (1 / 2) 200000 Sent
          (snd (send_otp ''a@x.com'' 0 0 Sent empty_backend))))) = OK"
    by simp
  ultimately show ?thesis by (simp add: generate_otp_0 generate_otp_half)
qed

text \<open>
  The draws \<open>0\<close> and \<open>2\<^sup>-\<^sup>2\<^sup>0\<close> both give the code 100000: after the two issuances, verifying
  the first code answers OK. With two different codes, a verification after the second
  expiry answers EXPIRED. Neither is MISMATCH.
\<close>

theorem reissue_first_code_not_always_mismatch:
  "generate_otp 0 = generate_otp (1 / 2 ^ 20)
   \<and> fst (verify_otp ''a@x.com'' (generate_otp 0) 2
        (snd (send_otp ''a@x.com'' (1 / 2 ^ 20) 1 Sent
          (snd (send_otp ''a@x.com'' 0 0 Sent empty_backend))))) = OK
   \<and> OK \<noteq> MISMATCH
   \<and> fst (verify_otp ''a@x.com'' (generate_otp 0) 300002
        (snd (send_otp ''a@x.com'' (1 / 2) 1 Sent
          (snd (send_otp ''a@x.com'' 0 0 Sent empty_backend))))) = EXPIRED
   \<and> EXPIRED \<noteq> MISMATCH"
  by (simp add: send_otp_state fst_verify_otp generate_otp_0 generate_otp_small [simplified]
        generate_otp_half verify_answers_distinct)




text \<open>
  C10, as amended. The key of a passcode is \<^verbatim>\<open>encodeURIComponent\<close> of the email as supplied,
  with no lower-casing or trimming. That function is injective, so a verification under
  any other spelling of the email (another letter case, surrounding blanks) reads another
  key: it does not find the record just issued and answers what it answered before the
  issuance, which is NOT_FOUND when no passcode is on record under that spelling.
\<close>

theorem verify_key_is_exact_email:
  assumes "email \<noteq> []" and "email' \<noteq> []" and "code \<noteq> []"
    and "email' \<noteq> email"
  shows "otps (snd (send_otp email r now mail s)) (encodeURIComponent email) =
           Some \<lparr>otp_code = generate_otp r, otp_createdAt = now, otp_expiresAt = now + 300000\<rparr>
       \<and> fst (verify_otp email' code now' (snd (send_otp email r now mail s))) =
           fst (verify_otp email' code now' s)
       \<and> (otps s (encodeURIComponent email') = None \<longrightarrow>
            fst (verify_otp email' code now' (snd (send_otp email r now mail s))) = NOT_FOUND)"
proof -
  from assms(4) have "encodeURIComponent email' \<noteq> encodeURIComponent email"
    by (auto dest: encodeURIComponent_inj)
  with assms show ?thesis
    by (simp add: send_otp_state fst_verify_otp)
qed

theorem verify_key_is_exact_email_witness:
  "''Ana@x.com'' \<noteq> [] \<and> ''ana@x.com'' \<noteq> [] \<and> ''100000'' \<noteq> [] \<and> ''ana@x.com'' \<noteq> ''Ana@x.com''
   \<and> otps empty_backend (encodeURIComponent ''ana@x.com'') = None
   \<and> fst (verify_otp ''ana@x.com'' ''100000'' 1
        (snd (send_otp ''Ana@x.com'' 0 0 Sent empty_backend))) = NOT_FOUND
   \<and> fst (verify_otp '' Ana@x.com'' ''100000'' 1
        (snd (send_otp ''Ana@x.com'' 0 0 Sent empty_backend))) = NOT_FOUND
   \<and> fst (verify_otp ''Ana@x.com'' ''100000'' 1
        (snd (send_otp ''Ana@x.com'' 0 0 Sent empty_backend))) = OK"
  using verify_key_is_exact_email [where email = "''Ana@x.com''" and email' = "''ana@x.com''"
      and code = "''100000''" and s = empty_backend and r = 0 and now = 0 and mail = Sent and now' = 1]
    verify_key_is_exact_email [where email = "''Ana@x.com''" and email' = "'' Ana@x.com''"
      and code = "''100000''" and s = empty_backend and r = 0 and now = 0 and mail = Sent and now' = 1]
  by (simp add: empty_backend_def send_otp_state verify_otp_def generate_otp_0)

text \<open>
  With a passcode issued earlier under \<^verbatim>\<open>ana@x.com\<close>, an issuance for \<^verbatim>\<open>Ana@x.com\<close> and a
  verification under \<^verbatim>\<open>ana@x.com\<close> answers OK, not NOT_FOUND.
\<close>

theorem verify_other_spelling_finds_earlier_passcode:
  "''ana@x.com'' \<noteq> ''Ana@x.com''
   \<and> fst (verify_otp ''ana@x.com'' ''100000'' 2
        (snd (send_otp ''Ana@x.com'' (1 / 2) 1 Sent
          (snd (send_otp ''ana@x.com'' 0 0 Sent empty_backend))))) = OK
   \<and> OK \<noteq> NOT_FOUND"
proof -
  have "encodeURIComponent ''ana@x.com'' \<noteq> encodeURIComponent ''Ana@x.com''"
    by (auto dest: encodeURIComponent_inj)
  then show ?thesis
    by (simp add: send_otp_state fst_verify_otp generate_otp_0 verify_answers_distinct)
qed

subsection \<open>Name parts\<close>

text \<open>
  C9, as amended. With no name part supplied, \<^verbatim>\<open>Dela Cruz, Juan Miguel\<close> decomposes into last
  name \<^verbatim>\<open>Dela Cruz\<close>, first name \<^verbatim>\<open>Juan\<close>, middle name \<^verbatim>\<open>Miguel\<close>, and the comma-less
  \<^verbatim>\<open>Juan Dela Cruz\<close> into first name \<^verbatim>\<open>Juan\<close>, middle name \<^verbatim>\<open>Dela\<close> (the interior token),
  last name \<^verbatim>\<open>Cruz\<close>.
\<close>

theorem name_decomposition:
  "parse_name (Some ''Dela Cruz, Juan Miguel'') None None None =
     Some \<lparr>np_lastName = ''Dela Cruz'', np_firstName = ''Juan'', np_middleName = ''Miguel'',
           np_fullName = ''Dela Cruz, Juan Miguel''\<rparr>
   \<and> parse_name (Some ''Juan Dela Cruz'') None None None =
     Some \<lparr>np_lastName = ''Cruz'', np_firstName = ''Juan'', np_middleName = ''Dela'',
           np_fullName = ''Juan Dela Cruz''\<rparr>"
  by (simp add: parse_name_def trim_field_def js_trim_def trim_start.simps trim_end.simps
        split_spaces.simps space_length_def space_length_end_def filter_Boolean_def or_else_def
        compose_full_name_def Let_def)

text \<open>
  The middle name of the comma-less \<^verbatim>\<open>Juan Dela Cruz\<close> is not empty: the decomposition is not
  the one with first name \<^verbatim>\<open>Juan\<close>, empty middle name and last name \<^verbatim>\<open>Cruz\<close>.
\<close>

theorem name_decomposition_middle_not_empty:
  "map_option (\<lambda>p. (np_firstName p, np_middleName p, np_lastName p))
     (parse_name (Some ''Juan Dela Cruz'') None None None) \<noteq> Some (''Juan'', [], ''Cruz'')"
  by (simp add: parse_name_def trim_field_def js_trim_def trim_start.simps trim_end.simps
        split_spaces.simps space_length_def space_length_end_def filter_Boolean_def or_else_def
        compose_full_name_def Let_def)

subsection \<open>Accounts at the identity provider\<close>

lemma getUserByEmail_Inr_D:
  "getUserByEmail a e = Inr u \<Longrightarrow> \<exists>r. map_of a u = Some r"
proof -
  assume h: "getUserByEmail a e = Inr u"
  then obtain p where p: "find (\<lambda>p. au_email (snd p) = e) a = Some p" "u = fst p"
    by (auto simp: getUserByEmail_def split: option.splits)
  then have "p \<in> set a" by (auto simp: find_Some_iff)
  with p(2) have "u \<in> fst ` set a" by auto
  then show ?thesis by (cases "map_of a u") (auto simp: map_of_eq_None_iff)
qed

lemma map_of_updated:
  "map_of a u = Some r \<Longrightarrow>
   map_of (map (\<lambda>p. if fst p = u then (fst p, f (snd p)) else p) a) u = Some (f r)"
  by (induction a) (auto split: if_splits)

lemma updateUser_existing:
  "map_of a u = Some r \<Longrightarrow>
   updateUser a u f = Inr (map (\<lambda>p. if fst p = u then (fst p, f (snd p)) else p) a)"
  by (simp add: updateUser_def)

lemma le_foldr_max: "x \<in> set xs \<Longrightarrow> x \<le> foldr max xs (0::nat)"
  by (induction xs) (auto simp: max_def)

lemma fresh_uid_new: "map_of a (fresh_uid a) = None"
proof -
  have "fresh_uid a \<noteq> fst p" if "p \<in> set a" for p
  proof -
    from that have "length (fst p) \<in> set (map (\<lambda>p. length (fst p)) a)" by auto
    then have "length (fst p) \<le> foldr max (map (\<lambda>p. length (fst p)) a) 0"
      by (rule le_foldr_max)
    then have "length (fst p) < length (fresh_uid a)" by (simp add: fresh_uid_def)
    then show ?thesis by auto
  qed
  then have "fresh_uid a \<notin> fst ` set a" by auto
  then show ?thesis by (simp add: map_of_eq_None_iff)
qed

lemma find_snoc:
  "find P a = None \<Longrightarrow> find P (a @ [x]) = (if P x then Some x else None)"
  by (induction a) (auto split: if_splits)

lemma find_Some_snoc: "find P a = Some p \<Longrightarrow> find P (a @ [x]) = Some p"
  by (induction a) (auto split: if_splits)

lemma map_of_snoc_new: "map_of a u = None \<Longrightarrow> map_of (a @ [(u, r)]) u = Some r"
  by (simp add: map_add_def)

lemma find_email_updated:
  assumes "\<And>r. au_email (f r) = au_email r"
  shows "find (\<lambda>p. au_email (snd p) = e) (map (\<lambda>p. if fst p = u then (fst p, f (snd p)) else p) a)
       = map_option (\<lambda>p. if fst p = u then (fst p, f (snd p)) else p) (find (\<lambda>p. au_email (snd p) = e) a)"
  by (induction a) (auto simp: assms)

lemma count_email_updated:
  assumes "\<And>r. au_email (f r) = au_email r"
  shows "length (filter (\<lambda>p. au_email (snd p) = e) (map (\<lambda>p. if fst p = u then (fst p, f (snd p)) else p) a))
       = length (filter (\<lambda>p. au_email (snd p) = e) a)"
  by (induction a) (auto simp: assms)

lemma find_None_count: "find P a = None \<Longrightarrow> length (filter P a) = 0"
  by (induction a) (auto split: if_splits)

lemma find_Some_count: "find P a = Some p \<Longrightarrow> 0 < length (filter P a)"
  by (induction a) (auto split: if_splits)

lemma find_Some_key: "find P a = Some p \<Longrightarrow> \<exists>r. map_of a (fst p) = Some r"
proof -
  assume "find P a = Some p"
  then have "p \<in> set a" by (auto simp: find_Some_iff)
  then have "fst p \<in> fst ` set a" by auto
  then show ?thesis by (cases "map_of a (fst p)") (auto simp: map_of_eq_None_iff)
qed

lemma ensureUser_new:
  assumes "find (\<lambda>p. au_email (snd p) = email) (auth s) = None"
  shows "ensureUser None email password role now s =
     Inr (\<lparr>er_created = True, er_uid = fresh_uid (auth s), er_passwordReset = False\<rparr>,
          s\<lparr>auth := auth s @ [(fresh_uid (auth s),
                 \<lparr>au_email = email, au_password = password, au_emailVerified = True, au_disabled = False\<rparr>)],
            users := set_merge (users s) (fresh_uid (auth s))
              [''email'' \<mapsto> FStr email, ''role'' \<mapsto> FStr role,
               ''isEmailVerified'' \<mapsto> FBool True, ''createdAt'' \<mapsto> FTime now]\<rparr>)"
  using assms by (simp add: ensureUser_def createUser_def)

lemma ensureUser_existing:
  assumes "find (\<lambda>p. au_email (snd p) = email) (auth s) = Some p"
  shows "ensureUser None email password role now s =
     Inr (\<lparr>er_created = False, er_uid = fst p, er_passwordReset = True\<rparr>,
          s\<lparr>auth := map (\<lambda>q. if fst q = fst p
                 then (fst q, (snd q)\<lparr>au_password := password, au_emailVerified := True, au_disabled := False\<rparr>)
                 else q) (auth s),
            users := set_merge (users s) (fst p)
              [''email'' \<mapsto> FStr email, ''role'' \<mapsto> FStr role,
               ''isEmailVerified'' \<mapsto> FBool True, ''updatedAt'' \<mapsto> FTime now]\<rparr>)"
proof -
  from assms obtain r where "map_of (auth s) (fst p) = Some r"
    by (auto dest: find_Some_key)
  with assms show ?thesis
    by (simp add: ensureUser_def createUser_def getUserByEmail_def updateUser_def)
qed

lemma ensureUser_existing_auth:
  assumes "find (\<lambda>p. au_email (snd p) = email) (auth s) = Some p"
  shows "\<exists>s'. ensureUser None email password role now s =
            Inr (\<lparr>er_created = False, er_uid = fst p, er_passwordReset = True\<rparr>, s')
          \<and> length (filter (\<lambda>p. au_email (snd p) = email) (auth s'))
              = length (filter (\<lambda>p. au_email (snd p) = email) (auth s))"
proof -
  let ?g = "\<lambda>q. if fst q = fst p
      then (fst q, (snd q)\<lparr>au_password := password, au_emailVerified := True, au_disabled := False\<rparr>)
      else q"
  have "length (filter (\<lambda>p. au_email (snd p) = email) (map ?g (auth s)))
      = length (filter (\<lambda>p. au_email (snd p) = email) (auth s))"
    by (rule count_email_updated) simp
  then show ?thesis
    by (subst ensureUser_existing [OF assms]) (simp del: filter_map)
qed

lemma ensureUser_twice:
  "\<exists>u s1 s2.
      ensureUser None email password role now s =
        Inr (\<lparr>er_created = (getUserByEmail (auth s) email = Inl user_not_found), er_uid = u,
              er_passwordReset = (getUserByEmail (auth s) email \<noteq> Inl user_not_found)\<rparr>, s1)
    \<and> ensureUser None email password' role' now' s1 =
        Inr (\<lparr>er_created = False, er_uid = u, er_passwordReset = True\<rparr>, s2)
    \<and> length (filter (\<lambda>p. au_email (snd p) = email) (auth s2))
        = max 1 (length (filter (\<lambda>p. au_email (snd p) = email) (auth s)))"
proof (cases "find (\<lambda>p. au_email (snd p) = email) (auth s)")
  case None
  let ?u = "fresh_uid (auth s)"
  let ?props = "\<lparr>au_email = email, au_password = password, au_emailVerified = True, au_disabled = False\<rparr>"
  let ?s1 = "s\<lparr>auth := auth s @ [(?u, ?props)],
            users := set_merge (users s) ?u
              [''email'' \<mapsto> FStr email, ''role'' \<mapsto> FStr role,
               ''isEmailVerified'' \<mapsto> FBool True, ''createdAt'' \<mapsto> FTime now]\<rparr>"
  have first: "ensureUser None email password role now s =
      Inr (\<lparr>er_created = True, er_uid = ?u, er_passwordReset = False\<rparr>, ?s1)"
    using None by (rule ensureUser_new)
  have found: "find (\<lambda>p. au_email (snd p) = email) (auth ?s1) = Some (?u, ?props)"
    using None by (simp add: find_snoc)
  from ensureUser_existing_auth [OF found, of password' role' now']
  obtain s2 where second: "ensureUser None email password' role' now' ?s1 =
        Inr (\<lparr>er_created = False, er_uid = ?u, er_passwordReset = True\<rparr>, s2)"
    and cnt2: "length (filter (\<lambda>p. au_email (snd p) = email) (auth s2))
        = length (filter (\<lambda>p. au_email (snd p) = email) (auth ?s1))"
    by auto
  have cnt: "length (filter (\<lambda>p. au_email (snd p) = email) (auth s)) = 0"
    using None by (rule find_None_count)
  have created: "getUserByEmail (auth s) email = Inl user_not_found"
    using None by (simp add: getUserByEmail_def)
  have final: "length (filter (\<lambda>p. au_email (snd p) = email) (auth s2))
        = max 1 (length (filter (\<lambda>p. au_email (snd p) = email) (auth s)))"
    using cnt cnt2 by simp
  from first second final created show ?thesis by auto
next
  case (Some p)
  from ensureUser_existing_auth [OF Some, of password role now]
  obtain s1 where first: "ensureUser None email password role now s =
        Inr (\<lparr>er_created = False, er_uid = fst p, er_passwordReset = True\<rparr>, s1)"
    and cnt1: "length (filter (\<lambda>p. au_email (snd p) = email) (auth s1))
        = length (filter (\<lambda>p. au_email (snd p) = email) (auth s))"
    by auto
  let ?g = "\<lambda>q. if fst q = fst p
                 then (fst q, (snd q)\<lparr>au_password := password, au_emailVerified := True, au_disabled := False\<rparr>)
                 else q"
  from first have s1: "auth s1 = map ?g (auth s)"
    by (auto simp: ensureUser_existing [OF Some])
  have "find (\<lambda>p. au_email (snd p) = email) (map ?g (auth s)) = map_option ?g (find (\<lambda>p. au_email (snd p) = email) (auth s))"
    by (rule find_email_updated) simp
  then have found: "find (\<lambda>p. au_email (snd p) = email) (auth s1) = Some (?g p)"
    using Some s1 by simp
  from ensureUser_existing_auth [OF found, of password' role' now']
  obtain s2 where second: "ensureUser None email password' role' now' s1 =
        Inr (\<lparr>er_created = False, er_uid = fst p, er_passwordReset = True\<rparr>, s2)"
    and cnt2: "length (filter (\<lambda>p. au_email (snd p) = email) (auth s2))
        = length (filter (\<lambda>p. au_email (snd p) = email) (auth s1))"
    by auto
  have cnt: "0 < length (filter (\<lambda>p. au_email (snd p) = email) (auth s))"
    using Some by (rule find_Some_count)
  have existed: "getUserByEmail (auth s) email \<noteq> Inl user_not_found"
    using Some by (simp add: getUserByEmail_def)
  have final: "length (filter (\<lambda>p. au_email (snd p) = email) (auth s2))
        = max 1 (length (filter (\<lambda>p. au_email (snd p) = email) (auth s)))"
    using cnt cnt1 cnt2 by arith
  from first second final existed show ?thesis by auto
qed

lemma ensure_auth_user_new:
  assumes "email \<noteq> []" and "find (\<lambda>p. au_email (snd p) = toLowerCase email) (auth s) = None"
  shows "ensure_auth_user None D toLowerCase email password birthday rnd s =
     (Response 200 [(''success'', JBool True), (''uid'', JStr (fresh_uid (auth s)))],
      s\<lparr>auth := auth s @ [(fresh_uid (auth s),
             \<lparr>au_email = toLowerCase email, au_password = derive_password D password birthday rnd,
               au_emailVerified = True, au_disabled = False\<rparr>)]\<rparr>)"
  using assms
  by (simp add: ensure_auth_user_def createUser_def getUser_def Let_def map_of_snoc_new fresh_uid_new
        map_add_def)

lemma ensure_auth_user_existing:
  assumes "email \<noteq> []" and "find (\<lambda>p. au_email (snd p) = toLowerCase email) (auth s) = Some p"
  shows "ensure_auth_user None D toLowerCase email password birthday rnd s =
     (Response 200 [(''success'', JBool True), (''uid'', JStr (fst p))],
      s\<lparr>auth := map (\<lambda>q. if fst q = fst p
             then (fst q, (snd q)\<lparr>au_password := derive_password D password birthday rnd,
                                   au_emailVerified := True, au_disabled := False\<rparr>)
             else q) (auth s)\<rparr>)"
proof -
  from assms(2) obtain r where r: "map_of (auth s) (fst p) = Some r"
    by (auto dest: find_Some_key)
  note upd = map_of_updated [OF r, of "\<lambda>r. r\<lparr>au_password := derive_password D password birthday rnd,
                                   au_emailVerified := True, au_disabled := False\<rparr>"]
  from assms r upd show ?thesis
    by (simp add: ensure_auth_user_def createUser_def getUserByEmail_def updateUser_def getUser_def Let_def)
qed

lemma ensure_auth_user_twice:
  assumes "email \<noteq> []"
  shows "\<exists>u s1 s2.
      ensure_auth_user None D toLowerCase email password birthday rnd s =
        (Response 200 [(''success'', JBool True), (''uid'', JStr u)], s1)
    \<and> ensure_auth_user None D' toLowerCase email password' birthday' rnd' s1 =
        (Response 200 [(''success'', JBool True), (''uid'', JStr u)], s2)"
proof (cases "find (\<lambda>p. au_email (snd p) = toLowerCase email) (auth s)")
  case None
  let ?u = "fresh_uid (auth s)"
  let ?props = "\<lparr>au_email = toLowerCase email, au_password = derive_password D password birthday rnd,
               au_emailVerified = True, au_disabled = False\<rparr>"
  note first = ensure_auth_user_new [where toLowerCase = toLowerCase and D = D and password = password
      and birthday = birthday and rnd = rnd, OF assms None]
  have found: "find (\<lambda>p. au_email (snd p) = toLowerCase email) (auth (s\<lparr>auth := auth s @ [(?u, ?props)]\<rparr>))
      = Some (?u, ?props)"
    using None by (simp add: find_snoc)
  note second = ensure_auth_user_existing [where toLowerCase = toLowerCase and D = D' and password = password'
      and birthday = birthday' and rnd = rnd', OF assms found]
  from first second show ?thesis by auto
next
  case (Some p)
  let ?g = "\<lambda>q. if fst q = fst p
             then (fst q, (snd q)\<lparr>au_password := derive_password D password birthday rnd,
                                   au_emailVerified := True, au_disabled := False\<rparr>)
             else q"
  note first = ensure_auth_user_existing [where toLowerCase = toLowerCase and D = D and password = password
      and birthday = birthday and rnd = rnd, OF assms Some]
  have "find (\<lambda>p. au_email (snd p) = toLowerCase email) (map ?g (auth s))
      = map_option ?g (find (\<lambda>p. au_email (snd p) = toLowerCase email) (auth s))"
    by (rule find_email_updated) simp
  then have found: "find (\<lambda>p. au_email (snd p) = toLowerCase email) (auth (s\<lparr>auth := map ?g (auth s)\<rparr>))
      = Some (?g p)"
    using Some by simp
  note second = ensure_auth_user_existing [where toLowerCase = toLowerCase and D = D' and password = password'
      and birthday = birthday' and rnd = rnd', OF assms found]
  from first second show ?thesis by auto
qed

lemma ensureUser_other: "ensureUser (Some message) email password role now s = Inl (other_error message)"
  by (simp add: ensureUser_def createUser_def)

lemma ensure_auth_user_other:
  "email \<noteq> [] \<Longrightarrow>
   ensure_auth_user (Some message) D toLowerCase email password birthday rnd s = (failure 500 message, s)"
  by (simp add: ensure_auth_user_def createUser_def auth_error_message_def Let_def)

text \<open>
  C2. For a non-empty email that resolves to an account and a non-empty code,
  \<^verbatim>\<open>/api/force-password-change\<close> sets the password of that account to the code and answers
  success. Whatever the passcode collection holds, the answer is the same and the
  collection comes back as it was: it is neither read nor changed.
\<close>

theorem force_password_change_ignores_passcodes:
  assumes "email \<noteq> []" and "otp \<noteq> []"
    and "getUserByEmail (auth s) email = Inr u"
  shows "\<exists>a'. updateUser (auth s) u (\<lambda>r. r\<lparr>au_password := otp\<rparr>) = Inr a'
       \<and> map_option au_password (map_of a' u) = Some otp
       \<and> force_password_change email otp (s\<lparr>otps := store\<rparr>) =
           (Response 200 [(''success'', JBool True)], s\<lparr>auth := a', otps := store\<rparr>)"
proof -
  from assms(3) obtain r where r: "map_of (auth s) u = Some r"
    by (auto dest: getUserByEmail_Inr_D)
  let ?a = "map (\<lambda>p. if fst p = u then (fst p, (snd p)\<lparr>au_password := otp\<rparr>) else p) (auth s)"
  from r have upd: "updateUser (auth s) u (\<lambda>r. r\<lparr>au_password := otp\<rparr>) = Inr ?a"
    by (rule updateUser_existing)
  from r have "map_of ?a u = Some (r\<lparr>au_password := otp\<rparr>)"
    by (rule map_of_updated)
  with upd assms show ?thesis
    by (simp add: force_password_change_def)
qed

theorem force_password_change_ignores_passcodes_witness:
  "''a@x.com'' \<noteq> [] \<and> ''999999'' \<noteq> []
   \<and> getUserByEmail (auth registered_backend) ''a@x.com'' = Inr ''u1''
   \<and> force_password_change ''a@x.com'' ''999999''
        (registered_backend\<lparr>otps := [encodeURIComponent ''a@x.com'' \<mapsto>
           \<lparr>otp_code = ''123456'', otp_createdAt = 0, otp_expiresAt = 300000\<rparr>]\<rparr>) =
       (Response 200 [(''success'', JBool True)],
        registered_backend
          \<lparr>auth := [(''u1'', \<lparr>au_email = ''a@x.com'', au_password = ''999999'',
                              au_emailVerified = True, au_disabled = False\<rparr>)],
            otps := [encodeURIComponent ''a@x.com'' \<mapsto>
              \<lparr>otp_code = ''123456'', otp_createdAt = 0, otp_expiresAt = 300000\<rparr>]\<rparr>)"
proof -
  have h: "''a@x.com'' \<noteq> []" "''999999'' \<noteq> []"
    "getUserByEmail (auth registered_backend) ''a@x.com'' = Inr ''u1''"
    by (simp_all add: registered_backend_def getUserByEmail_def)
  from force_password_change_ignores_passcodes [OF h,
      where store = "[encodeURIComponent ''a@x.com'' \<mapsto>
           \<lparr>otp_code = ''123456'', otp_createdAt = 0, otp_expiresAt = 300000\<rparr>]"]
  show ?thesis
    using h by (auto simp: registered_backend_def updateUser_def)
qed

text \<open>
  C8, as amended. Take two calls of \<^verbatim>\<open>ensureUser\<close> for one email, neither of which the
  provider fails for a reason of its own (OTHER): both succeed and return the same id; the
  first has \<^verbatim>\<open>created\<close> true when no account had the email before (false when one had),
  the second has it false; afterwards the email has one account if it had none, and as many
  as before otherwise. A call whose creation the provider fails with OTHER rejects with
  that error and returns no id. The same holds of \<^verbatim>\<open>/admin/ensure-auth-user\<close> with a
  non-empty email: two calls answer success with the same id, and a call failed with OTHER
  answers 500 and leaves the backend as it was.
\<close>

theorem ensure_twice:
  "(\<exists>u s1 s2.
      ensureUser None email password role now s =
        Inr (\<lparr>er_created = (getUserByEmail (auth s) email = Inl user_not_found), er_uid = u,
              er_passwordReset = (getUserByEmail (auth s) email \<noteq> Inl user_not_found)\<rparr>, s1)
    \<and> ensureUser None email password' role' now' s1 =
        Inr (\<lparr>er_created = False, er_uid = u, er_passwordReset = True\<rparr>, s2)
    \<and> length (filter (\<lambda>p. au_email (snd p) = email) (auth s2))
        = max 1 (length (filter (\<lambda>p. au_email (snd p) = email) (auth s))))
   \<and> ensureUser (Some message) email password role now s = Inl (other_error message)
   \<and> (email \<noteq> [] \<longrightarrow>
       (\<exists>u s1 s2.
          ensure_auth_user None D toLowerCase email pw birthday rnd s =
            (Response 200 [(''success'', JBool True), (''uid'', JStr u)], s1)
        \<and> ensure_auth_user None D' toLowerCase email pw' birthday' rnd' s1 =
            (Response 200 [(''success'', JBool True), (''uid'', JStr u)], s2))
     \<and> ensure_auth_user (Some message) D toLowerCase email pw birthday rnd s =
         (failure 500 message, s))"
  by (intro conjI impI ensureUser_twice ensure_auth_user_twice ensureUser_other
        ensure_auth_user_other)

theorem ensure_twice_witness:
  "''New@x.com'' \<noteq> []
   \<and> (\<exists>u s1 s2.
          ensure_auth_user None (\<lambda>b. None) ascii_toLowerCase ''New@x.com'' (Some ''secret2'') None
              ''k3j9x0q2pz'' registered_backend =
            (Response 200 [(''success'', JBool True), (''uid'', JStr u)], s1)
        \<and> ensure_auth_user None (\<lambda>b. None) ascii_toLowerCase ''New@x.com'' None None ''k3j9x0q2pz'' s1 =
            (Response 200 [(''success'', JBool True), (''uid'', JStr u)], s2))
   \<and> fst (ensure_auth_user None (\<lambda>b. None) ascii_toLowerCase ''New@x.com'' (Some ''secret2'') None
            ''k3j9x0q2pz'' registered_backend)
       = Response 200 [(''success'', JBool True), (''uid'', JStr ''uuu'')]
   \<and> auth (snd (ensure_auth_user None (\<lambda>b. None) ascii_toLowerCase ''New@x.com'' (Some ''secret2'') None
            ''k3j9x0q2pz'' registered_backend))
       = auth registered_backend @
           [(''uuu'', \<lparr>au_email = ''new@x.com'', au_password = ''secret2'',
                       au_emailVerified = True, au_disabled = False\<rparr>)]"
proof -
  have h: "''New@x.com'' \<noteq> []" by simp
  have "\<exists>u s1 s2.
          ensure_auth_user None (\<lambda>b. None) ascii_toLowerCase ''New@x.com'' (Some ''secret2'') None
              ''k3j9x0q2pz'' registered_backend =
            (Response 200 [(''success'', JBool True), (''uid'', JStr u)], s1)
        \<and> ensure_auth_user None (\<lambda>b. None) ascii_toLowerCase ''New@x.com'' None None ''k3j9x0q2pz'' s1 =
            (Response 200 [(''success'', JBool True), (''uid'', JStr u)], s2)"
    using ensure_twice [where email = "''New@x.com''" and s = registered_backend
        and toLowerCase = ascii_toLowerCase] h by blast
  moreover have "ensure_auth_user None (\<lambda>b. None) ascii_toLowerCase ''New@x.com'' (Some ''secret2'') None
            ''k3j9x0q2pz'' registered_backend
       = (Response 200 [(''success'', JBool True), (''uid'', JStr ''uuu'')],
          registered_backend\<lparr>auth := auth registered_backend @
           [(''uuu'', \<lparr>au_email = ''new@x.com'', au_password = ''secret2'',
                       au_emailVerified = True, au_disabled = False\<rparr>)]\<rparr>)"
    by (simp add: ensure_auth_user_def registered_backend_def createUser_def getUser_def fresh_uid_def
          ascii_toLowerCase_def ascii_lower_char_def derive_password_def Let_def)
  ultimately show ?thesis using h by simp
qed

text \<open>
  On a backend with no account, a first call of \<^verbatim>\<open>ensureUser\<close> that the provider fails with
  OTHER rejects and returns no id; the call after it, the second for this email, returns
  \<^verbatim>\<open>created: true\<close>.
\<close>

theorem ensureUser_created_on_second_call:
  "ensureUser (Some ''network-request-failed'') ''a@x.com'' ''secret1'' ''admin'' 5 empty_backend
     = Inl (other_error ''network-request-failed'')
   \<and> map_sum id fst (ensureUser None ''a@x.com'' ''secret1'' ''admin'' 6 empty_backend) =
     Inr \<lparr>er_created = True, er_uid = ''u'', er_passwordReset = False\<rparr>"
  by (simp add: empty_backend_def ensureUser_def createUser_def fresh_uid_def)

subsection \<open>The archive cascade\<close>

lemma build_batch_archiving: "build_batch True (p # ps) = Inl (ReferenceError ''requesterEmail is not defined'')"
  by (simp add: archive_update_def requesterEmail_def)

lemma cascade_archiving: "cascade True now userEmail stock = stock"
proof (cases "filter (\<lambda>p. createdBy_email (snd p) = userEmail) stock")
  case Nil
  then show ?thesis by (simp add: cascade_def)
next
  case (Cons p ps)
  then show ?thesis by (simp add: cascade_def build_batch_archiving del: build_batch.simps)
qed

lemma archive_never_cascades:
  "vaccineStock (snd (archive_admin u (Some True) now s)) = vaccineStock s"
  by (simp add: archive_admin_def cascade_archiving Let_def)

text \<open>
  Unarchiving names no undeclared variable: on the same backend with both records archived,
  \<^verbatim>\<open>disable: false\<close> clears the record of \<^verbatim>\<open>a@x.com\<close> and leaves the other one.
\<close>

lemma unarchive_cascade_applied:
  "map archive_fields (vaccineStock (snd (archive_admin ''u1'' (Some False) 1000
      (registered_backend\<lparr>vaccineStock :=
         map (\<lambda>p. (fst p, (snd p)(''isArchived'' \<mapsto> FBool True, ''archivedAt'' \<mapsto> FTime 5,
                                   ''archivedBy'' \<mapsto> FStr ''z@x.com'')))
           (vaccineStock registered_backend)\<rparr>))))
     = [(''v1'', Some (FBool False), None, None),
        (''v2'', Some (FBool True), Some (FTime 5), Some (FStr ''z@x.com''))]"
  by (simp add: archive_admin_def registered_backend_def cascade_def set_merge_def archive_fields_def
        createdBy_email_def fs_truthy_def archive_update_def commit_def Let_def)

text \<open>
  C1. The cascade on archiving: on the backend where the account \<open>u1\<close> has the stored email
  \<^verbatim>\<open>a@x.com\<close> and the stock record \<open>v1\<close> is created by that email, \<^verbatim>\<open>/admin/archive-admin\<close>
  with \<^verbatim>\<open>disable: true\<close> answers success and deactivates the profile, and every stock
  record keeps \<^verbatim>\<open>isArchived\<close> false with no \<^verbatim>\<open>archivedAt\<close> and no \<^verbatim>\<open>archivedBy\<close>:
  building the batch throws on \<^verbatim>\<open>requesterEmail\<close>, the handler swallows the error, and
  the batch is never committed.
\<close>

theorem archive_cascade_not_applied:
  "fst (archive_admin ''u1'' (Some True) 1000 registered_backend) = success_msg ''Admin archived''
   \<and> map_option (\<lambda>d. d ''isActive'') (users (snd (archive_admin ''u1'' (Some True) 1000 registered_backend)) ''u1'')
       = Some (Some (FBool False))
   \<and> map archive_fields (vaccineStock (snd (archive_admin ''u1'' (Some True) 1000 registered_backend)))
       = [(''v1'', Some (FBool False), None, None), (''v2'', Some (FBool False), None, None)]"
  by (simp add: archive_admin_def registered_backend_def cascade_archiving set_merge_def archive_fields_def)

subsection \<open>The email-change token\<close>

lemma split_on_no_sep: "c \<notin> set s \<Longrightarrow> split_on c s = [s]"
  by (induction s) auto

lemma split_on_append: "c \<notin> set a \<Longrightarrow> split_on c (a @ c # b) = a # split_on c b"
  by (induction a) auto





lemma map_of_obj_set: "map_of (obj_set k v kv) k' = (if k' = k then Some v else map_of kv k')"
  by (induction kv) auto

lemma token_body_exp: "property_exp (token_body payload issuedAt expiresAt) = Some (Some (JNum expiresAt))"
  by (simp add: property_exp_def token_body_def map_of_obj_set)

lemma token_body_entries:
  "token_body payload issuedAt expiresAt = JObj kv \<Longrightarrow>
   map_of kv k = (if k = ''exp'' then Some (JNum expiresAt)
                  else if k = ''iat'' then Some (JNum issuedAt) else map_of payload k)"
  by (auto simp: token_body_def map_of_obj_set)

lemma verify_created:
  assumes dec: "base64url_decode rt (base64url_encode rt body) = body"
    and nodot: "CHR ''.'' \<notin> set (base64url_encode rt body)"
    and hex: "CHR ''.'' \<notin> set (hmac_sha256_hex rt secret body)"
  shows "verifyEmailChangeToken rt (base64url_encode rt body @ CHR ''.'' # hmac_sha256_hex rt secret body) secret' now =
     (if hmac_sha256_hex rt secret' body \<noteq> hmac_sha256_hex rt secret body then None
      else case JSON_parse rt body of
             None \<Rightarrow> None
           | Some data \<Rightarrow>
               (case property_exp data of
                  None \<Rightarrow> None
                | Some e \<Rightarrow> if now_after now (exp_number rt e) then None else Some data))"
proof -
  have "split_on CHR ''.'' (base64url_encode rt body @ CHR ''.'' # hmac_sha256_hex rt secret body)
      = [base64url_encode rt body, hmac_sha256_hex rt secret body]"
    using nodot hex by (simp add: split_on_append split_on_no_sep)
  then show ?thesis
    by (simp add: verifyEmailChangeToken_def dec Let_def)
qed








text \<open>The example, evaluated.\<close>

lemma demo_body_chars:
  "demo_body = [CHR ''{'', CHR 0x22] @ ''uid'' @ [CHR 0x22, CHR '':'', CHR 0x22] @ ''u1'' @ [CHR 0x22, CHR '','', CHR 0x22]
     @ ''iat'' @ [CHR 0x22, CHR '':''] @ ''1000'' @ [CHR '','', CHR 0x22] @ ''exp'' @ [CHR 0x22, CHR '':''] @ ''1500}''"
  by (simp add: demo_body_def token_body_def demo_payload_def Number_toString_def string_of_nat.simps digit_char_def)


lemma char_of_eval: "char_of (numeral k :: nat) =
    Char (odd (numeral k :: nat)) (odd (numeral k div 2 :: nat)) (odd (numeral k div 4 :: nat))
      (odd (numeral k div 8 :: nat)) (odd (numeral k div 16 :: nat)) (odd (numeral k div 32 :: nat))
      (odd (numeral k div 64 :: nat)) (odd (numeral k div 128 :: nat))"
  by (simp add: char_of_def bit_iff_odd drop_bit_eq_div)

lemma demo_encode: "demo_base64url_encode demo_body = ''eyJ1aWQiOiJ1MSIsImlhdCI6MTAwMCwiZXhwIjoxNTAwfQ''"
  by (simp add: demo_body_chars demo_base64url_encode_def b64_alphabet_def)

lemma demo_decode: "demo_base64url_decode ''eyJ1aWQiOiJ1MSIsImlhdCI6MTAwMCwiZXhwIjoxNTAwfQ'' = demo_body"
  by (simp add: demo_body_chars demo_base64url_decode_def b64_alphabet_def b64_value_def
        List.map_filter_def char_of_eval)

lemma replicate_numeral: "replicate (numeral k) x = x # replicate (pred_numeral k) x"
  by (simp add: numeral_eq_Suc)

lemmas eval_digest = demo_digest_def hmac_def pad_key_def demo_hash_def hex_of_bytes_def Let_def
  replicate_numeral

lemma demo_digest_right: "demo_digest ''openvax-dev-secret'' demo_body = ''6717''"
  by (simp add: demo_body_chars eval_digest)



lemma demo_parse: "find (\<lambda>v. demo_stringify v = demo_body) demo_values
     = Some (token_body demo_payload 1000 1500)"
  by (simp add: demo_body_def demo_values_def)

lemma demo_runtime_simps:
  "hmac_sha256_hex demo_runtime = demo_digest"
  "base64url_encode demo_runtime = demo_base64url_encode"
  "base64url_decode demo_runtime = demo_base64url_decode"
  "JSON_stringify demo_runtime = demo_stringify"
  "JSON_parse demo_runtime = (\<lambda>s. find (\<lambda>v. demo_stringify v = s) demo_values)"
  by (simp_all add: demo_runtime_def)

lemma demo_token_created:
  "createEmailChangeToken demo_runtime demo_payload ''openvax-dev-secret'' (Some 500) 1000 = demo_token"
  using demo_encode demo_digest_right
  by (simp add: createEmailChangeToken_def demo_runtime_simps demo_body_def demo_token_def Let_def)


lemma demo_hypotheses:
  "demo_body = JSON_stringify demo_runtime (token_body demo_payload 1000 (1000 + 500))"
  "base64url_decode demo_runtime (base64url_encode demo_runtime demo_body) = demo_body"
  "CHR ''.'' \<notin> set (base64url_encode demo_runtime demo_body)"
  "CHR ''.'' \<notin> set (hmac_sha256_hex demo_runtime ''openvax-dev-secret'' demo_body)"
  "JSON_parse demo_runtime demo_body = Some (token_body demo_payload 1000 (1000 + 500))"
proof -
  show "demo_body = JSON_stringify demo_runtime (token_body demo_payload 1000 (1000 + 500))"
    by (simp add: demo_runtime_simps demo_body_def)
  show "base64url_decode demo_runtime (base64url_encode demo_runtime demo_body) = demo_body"
    by (simp add: demo_runtime_simps demo_encode demo_decode)
  show "CHR ''.'' \<notin> set (base64url_encode demo_runtime demo_body)"
    by (simp add: demo_runtime_simps demo_encode)
  show "CHR ''.'' \<notin> set (hmac_sha256_hex demo_runtime ''openvax-dev-secret'' demo_body)"
    by (simp add: demo_runtime_simps demo_digest_right)
  show "JSON_parse demo_runtime demo_body = Some (token_body demo_payload 1000 (1000 + 500))"
    using demo_parse by (simp add: demo_runtime_simps)
qed

text \<open>
  C6, as amended. On a runtime whose base64url decoding inverts its encoding on the
  serialized body, whose encoding and digest hold no dot, and whose \<^verbatim>\<open>JSON.parse\<close> inverts
  \<^verbatim>\<open>JSON.stringify\<close> on the stamped payload: validating a freshly issued token with the
  issuing secret, at a time not after \<open>issuedAt + ttl\<close>, returns the payload extended with
  \<^verbatim>\<open>iat = issuedAt\<close> and \<^verbatim>\<open>exp = issuedAt + ttl\<close>. Under every other key the result holds
  what the payload holds.
\<close>

theorem token_roundtrip:
  assumes "body = JSON_stringify rt (token_body payload now (now + ttl))"
    and "base64url_decode rt (base64url_encode rt body) = body"
    and "CHR ''.'' \<notin> set (base64url_encode rt body)"
    and "CHR ''.'' \<notin> set (hmac_sha256_hex rt secret body)"
    and "JSON_parse rt body = Some (token_body payload now (now + ttl))"
    and "now' \<le> now + ttl"
  shows "verifyEmailChangeToken rt (createEmailChangeToken rt payload secret (Some ttl) now) secret now'
           = Some (token_body payload now (now + ttl))
       \<and> (\<exists>kv. token_body payload now (now + ttl) = JObj kv
             \<and> map_of kv k = (if k = ''exp'' then Some (JNum (now + ttl))
                  else if k = ''iat'' then Some (JNum now) else map_of payload k))"
proof -
  have "createEmailChangeToken rt payload secret (Some ttl) now
      = base64url_encode rt body @ ''.'' @ hmac_sha256_hex rt secret body"
    by (simp add: createEmailChangeToken_def assms(1) Let_def)
  then have "verifyEmailChangeToken rt (createEmailChangeToken rt payload secret (Some ttl) now) secret now'
           = Some (token_body payload now (now + ttl))"
    using assms(5,6)
    by (simp add: verify_created [OF assms(2,3,4)] token_body_exp exp_number_def now_after_def)
  moreover have "\<exists>kv. token_body payload now (now + ttl) = JObj kv
             \<and> map_of kv k = (if k = ''exp'' then Some (JNum (now + ttl))
                  else if k = ''iat'' then Some (JNum now) else map_of payload k)"
    by (simp add: token_body_def map_of_obj_set)
  ultimately show ?thesis by blast
qed

theorem token_roundtrip_witness:
  "demo_body = JSON_stringify demo_runtime (token_body demo_payload 1000 (1000 + 500))
   \<and> base64url_decode demo_runtime (base64url_encode demo_runtime demo_body) = demo_body
   \<and> CHR ''.'' \<notin> set (base64url_encode demo_runtime demo_body)
   \<and> CHR ''.'' \<notin> set (hmac_sha256_hex demo_runtime ''openvax-dev-secret'' demo_body)
   \<and> JSON_parse demo_runtime demo_body = Some (token_body demo_payload 1000 (1000 + 500))
   \<and> (1200::int) \<le> 1000 + 500
   \<and> verifyEmailChangeToken demo_runtime
        (createEmailChangeToken demo_runtime demo_payload ''openvax-dev-secret'' (Some 500) 1000)
        ''openvax-dev-secret'' 1200
       = Some (token_body demo_payload 1000 (1000 + 500))"
proof -
  have t: "(1200::int) \<le> 1000 + 500" by simp
  from token_roundtrip [OF demo_hypotheses t] demo_hypotheses t show ?thesis by blast
qed

text \<open>
  The example payload \<^verbatim>\<open>{uid: "u1"}\<close>, issued at 1000 for 500 ms and validated at once,
  comes back as \<^verbatim>\<open>{uid: "u1", iat: 1000, exp: 1500}\<close>, which is not the payload.
\<close>

theorem token_roundtrip_adds_iat_exp:
  "verifyEmailChangeToken demo_runtime
        (createEmailChangeToken demo_runtime demo_payload ''openvax-dev-secret'' (Some 500) 1000)
        ''openvax-dev-secret'' 1000
     = Some (JObj [(''uid'', JStr ''u1''), (''iat'', JNum 1000), (''exp'', JNum 1500)])
   \<and> JObj [(''uid'', JStr ''u1''), (''iat'', JNum 1000), (''exp'', JNum 1500)] \<noteq> JObj demo_payload"
proof -
  have tok: "demo_token = base64url_encode demo_runtime demo_body @ CHR ''.'' #
      hmac_sha256_hex demo_runtime ''openvax-dev-secret'' demo_body"
    by (simp add: demo_runtime_simps demo_encode demo_digest_right demo_token_def)
  have "verifyEmailChangeToken demo_runtime demo_token ''openvax-dev-secret'' 1000
      = Some (token_body demo_payload 1000 (1000 + 500))"
    unfolding tok
    by (simp add: verify_created [OF demo_hypotheses(2,3,4)] demo_hypotheses(5) token_body_exp
          exp_number_def now_after_def)
  then show ?thesis
    by (simp add: demo_token_created) (simp add: token_body_def demo_payload_def)
qed




end
